theory Spec2Isabelle
  imports Main
begin

section \<open>JavaScript strings, objects and built-ins used by the handlers\<close>

text \<open>
  The server is a TypeScript class \<open>PromptLibraryMCP\<close> with one field, \<open>promptLibrary\<close>, and
  five tool handlers that read it. This theory embeds that field, \<open>loadPrompts\<close>, the five
  handlers and the JavaScript built-ins they call.

  A JavaScript string is a sequence of UTF-16 code units. Here a \<^typ>\<open>string\<close> stands for a
  JavaScript string all of whose code units are below \<open>0x100\<close>, one \<^typ>\<open>char\<close> per code unit;
  \<open>length\<close> is JavaScript's \<open>.length\<close>. The embedded prompt texts and all the keys of the
  library are plain ASCII. Strings with higher code units are outside the model.
\<close>

definition toLowerCase_char :: "char \<Rightarrow> char" where
  "toLowerCase_char c =
     (let n = (of_char c :: nat)
      in if (65 \<le> n \<and> n \<le> 90) \<or> (192 \<le> n \<and> n \<le> 222 \<and> n \<noteq> 215)
         then char_of (n + 32) else c)"

definition toLowerCase :: "string \<Rightarrow> string" where
  "toLowerCase s = map toLowerCase_char s"

text \<open>
  \<open>toUpperCase\<close> is only ever applied to the three category keys; the definition is exact on
  ASCII strings.
\<close>

definition toUpperCase_char :: "char \<Rightarrow> char" where
  "toUpperCase_char c =
     (let n = (of_char c :: nat)
      in if 97 \<le> n \<and> n \<le> 122 then char_of (n - 32) else c)"

definition toUpperCase :: "string \<Rightarrow> string" where
  "toUpperCase s = map toUpperCase_char s"

fun startsWith :: "string \<Rightarrow> string \<Rightarrow> bool" where
  "startsWith s [] = True"
| "startsWith [] (k # ks) = False"
| "startsWith (c # cs) (k # ks) = (c = k \<and> startsWith cs ks)"

text \<open>\<open>s.includes(k)\<close>: \<open>k\<close> occurs in \<open>s\<close> as a contiguous substring.\<close>

fun includes_str :: "string \<Rightarrow> string \<Rightarrow> bool" where
  "includes_str [] k = (k = [])"
| "includes_str (c # cs) k = (startsWith (c # cs) k \<or> includes_str cs k)"

text \<open>\<open>xs.join(sep)\<close> on an array of strings.\<close>

fun join_str :: "string \<Rightarrow> string list \<Rightarrow> string" where
  "join_str sep [] = []"
| "join_str sep [x] = x"
| "join_str sep (x # y # ys) = x @ sep @ join_str sep (y # ys)"

text \<open>\<open>s.substring(0, n)\<close>.\<close>

definition substring0 :: "string \<Rightarrow> nat \<Rightarrow> string" where
  "substring0 s n = take n s"

text \<open>
  A plain object (one written as an object literal) is the list of its own enumerable
  string-keyed properties in the order \<open>Object.keys\<close> and \<open>Object.entries\<close> enumerate them.
  For keys that are not array indices, as all keys of the library are, that is the order
  in which the literal lists them. A JavaScript object has no two properties with the same
  key: \<open>wf_object\<close>.
\<close>

type_synonym 'a js_object = "(string \<times> 'a) list"

definition Object_keys :: "'a js_object \<Rightarrow> string list" where
  "Object_keys obj = map fst obj"

definition Object_entries :: "'a js_object \<Rightarrow> (string \<times> 'a) list" where
  "Object_entries obj = obj"

definition wf_object :: "'a js_object \<Rightarrow> bool" where
  "wf_object obj = distinct (map fst obj)"

text \<open>
  Reading \<open>obj[key]\<close> on a plain object gives the own property when there is one, and
  otherwise follows the prototype chain to \<open>Object.prototype\<close>, whose members are named
  below (ECMAScript's \<open>Object.prototype\<close>, its Annex B accessors included). Each of them is a
  function, except \<open>__proto__\<close>, which reads as \<open>Object.prototype\<close> itself; none is
  \<open>undefined\<close>. For any other key the read gives \<open>undefined\<close>.
\<close>

definition Object_prototype_names :: "string list" where
  "Object_prototype_names =
     [''constructor'', ''hasOwnProperty'', ''isPrototypeOf'', ''propertyIsEnumerable'',
      ''toLocaleString'', ''toString'', ''valueOf'', ''__proto__'',
      ''__defineGetter__'', ''__defineSetter__'', ''__lookupGetter__'', ''__lookupSetter__'']"

datatype js_value =
    JSUndefined
  | JSString string
  | JSInherited string

definition get_property :: "string js_object \<Rightarrow> string \<Rightarrow> js_value" where
  "get_property obj key =
     (case map_of obj key of
        Some v \<Rightarrow> JSString v
      | None \<Rightarrow> if key \<in> set Object_prototype_names then JSInherited key else JSUndefined)"

text \<open>\<open>!v\<close> is \<open>\<not> truthy v\<close>: \<open>undefined\<close> and the empty string are falsy, objects and functions are truthy.\<close>

fun truthy :: "js_value \<Rightarrow> bool" where
  "truthy JSUndefined = False"
| "truthy (JSString s) = (s \<noteq> [])"
| "truthy (JSInherited k) = True"

subsection \<open>Regular expressions\<close>

text \<open>
  \<open>search_prompts\<close> counts with \<open>s.match(new RegExp(p, 'g'))\<close>. The regular expression engine
  is the platform's, not the repository's, so the handler takes it as a parameter: an engine
  maps the pattern source \<open>p\<close> and the subject \<open>s\<close> to \<open>Inl msg\<close> when \<open>new RegExp(p, 'g')\<close>
  throws a \<open>SyntaxError\<close> with message \<open>msg\<close>, and to \<open>Inr n\<close> when it does not and
  \<open>(s.match(...) || []).length\<close> is \<open>n\<close>.
\<close>

type_synonym regexp_engine = "string \<Rightarrow> string \<Rightarrow> string + nat"

text \<open>The syntax characters of ECMAScript patterns: \<open>^ $ . * + ? ( ) [ ] { } |\<close> and the backslash.\<close>

definition syntax_characters :: "char list" where
  "syntax_characters =
     [CHR ''^'', CHR ''$'', CHR 0x5C, CHR ''.'', CHR ''*'', CHR ''+'', CHR ''?'',
      CHR ''('', CHR '')'', CHR ''['', CHR '']'', CHR ''{'', CHR ''}'', CHR ''|'']"

definition literal_pattern :: "string \<Rightarrow> bool" where
  "literal_pattern p = list_all (\<lambda>c. c \<notin> set syntax_characters) p"

text \<open>
  A pattern without syntax characters matches exactly its own text. A global match scans
  from the left: at the first position where the pattern's text starts it counts one match
  and goes on after it. The empty pattern matches the empty string at every index from
  \<open>0\<close> to \<open>s.length\<close>.
\<close>

function count_matches :: "string \<Rightarrow> string \<Rightarrow> nat" where
  "count_matches p s =
     (if p = [] then length s + 1
      else if s = [] then 0
      else if startsWith s p then 1 + count_matches p (drop (length p) s)
      else count_matches p (tl s))"
  by pat_completeness auto
termination
  by (relation "measure (\<lambda>(p, s). length s)") (auto simp: neq_Nil_conv)

text \<open>The pattern \<open>.\<close> matches any one code unit that is not a line terminator.\<close>

definition line_terminator :: "char \<Rightarrow> bool" where
  "line_terminator c = (c = CHR 0x0A \<or> c = CHR 0x0D)"

text \<open>
  What the theorems below use of ECMAScript's regular expressions: the two pattern forms
  above, and that an opening parenthesis alone is rejected (an unterminated group).
\<close>

definition ecmascript_regexp :: "regexp_engine \<Rightarrow> bool" where
  "ecmascript_regexp rx =
     ((\<forall>p s. literal_pattern p \<longrightarrow> rx p s = Inr (count_matches p s)) \<and>
      (\<forall>s. rx ''.'' s = Inr (length (filter (\<lambda>c. \<not> line_terminator c) s))) \<and>
      (\<forall>s. \<exists>msg. rx ''('' s = Inl msg))"

text \<open>
  An engine that follows ECMAScript on these patterns. It rejects every other pattern with
  a syntax character, which a real engine does not; it serves to instantiate theorems at
  concrete inputs.
\<close>

definition fragment_engine :: regexp_engine where
  "fragment_engine p s =
     (if literal_pattern p then Inr (count_matches p s)
      else if p = ''.'' then Inr (length (filter (\<lambda>c. \<not> line_terminator c) s))
      else Inl ''Invalid regular expression'')"

section \<open>The embedded prompt texts (\<open>src/prompt.ts\<close>)\<close>

text \<open>Each constant is a template literal; its lines are joined by line feeds.\<close>

definition componentCreationPrompt :: string where
  \<open>componentCreationPrompt = join_str ''\<newline>''
    [''# React Component Creation'',
     '''',
     ''You are an expert React developer. When creating React components:'',
     '''',
     ''## Guidelines:'',
     ''- Use functional components with hooks'',
     ''- Follow TypeScript best practices'',
     ''- Implement proper prop validation with TypeScript interfaces'',
     ''- Use descriptive component and prop names'',
     ''- Include proper error boundaries where appropriate'',
     ''- Follow React best practices for performance (memo, useMemo, useCallback when needed)'',
     ''- Use modern React patterns (hooks, context, suspense)'',
     '''',
     ''## Component Structure:'',
     ''1. Import statements'',
     ''2. TypeScript interfaces/types'',
     ''3. Component definition'',
     ''4. Default props (if needed)'',
     ''5. Export statement'',
     '''',
     ''## Example Pattern:'',
     ''```typescript'',
     ''import React, { useState, useCallback } from 'react';'',
     '''',
     ''interface ComponentProps {'',
     ''  title: string;'',
     ''  onAction?: (data: string) => void;'',
     ''  isLoading?: boolean;'',
     ''}'',
     '''',
     ''const Component: React.FC<ComponentProps> = ({ '',
     ''  title, '',
     ''  onAction, '',
     ''  isLoading = false '',
     ''}) => {'',
     ''  // Component logic here'',
     ''  '',
     ''  return ('',
     ''    <div>'',
     ''      {/* JSX here */}'',
     ''    </div>'',
     ''  );'',
     ''};'',
     '''',
     ''export default Component;'',
     ''```'',
     '''',
     ''Always prioritize accessibility, performance, and maintainability.'']\<close>

definition stateManagementPrompt :: string where
  \<open>stateManagementPrompt = join_str ''\<newline>''
    [''# React State Management'',
     '''',
     ''You are an expert in React state management. When working with state:'',
     '''',
     ''## State Management Guidelines:'',
     ''- Use `useState` for local component state'',
     ''- Use `useReducer` for complex state logic'',
     ''- Use `useContext` for shared state across components'',
     ''- Consider external libraries (Redux, Zustand) for complex global state'',
     ''- Always use immutable updates'',
     ''- Avoid unnecessary re-renders with proper memoization'',
     '''',
     ''## Hook Usage:'',
     ''- `useState`: Simple local state'',
     ''- `useEffect`: Side effects and lifecycle management'',
     ''- `useMemo`: Expensive calculations'',
     ''- `useCallback`: Function memoization'',
     ''- `useRef`: DOM access and persistent values'',
     ''- `useContext`: Consuming context values'',
     '''',
     ''## State Update Patterns:'',
     ''```typescript'',
     ''// Object state updates'',
     ''setState(prev => ({ ...prev, newProperty: value }));'',
     '''',
     ''// Array state updates'',
     ''setItems(prev => [...prev, newItem]);'',
     ''setItems(prev => prev.filter(item => item.id !== id));'',
     '''',
     ''// Complex state with useReducer'',
     ''const [state, dispatch] = useReducer(reducer, initialState);'',
     ''```'',
     '''',
     ''## Performance Considerations:'',
     ''- Use React.memo for component memoization'',
     ''- Split state to avoid unnecessary re-renders'',
     ''- Use callback pattern for state updates'',
     ''- Consider state colocation principles'',
     '''',
     ''Always ensure predictable state updates and avoid side effects in render functions.'']\<close>

definition performanceOptimizationPrompt :: string where
  \<open>performanceOptimizationPrompt = join_str ''\<newline>''
    [''# Frontend Performance Optimization'',
     '''',
     ''You are an expert in frontend performance optimization. When optimizing web applications:'',
     '''',
     ''## Core Web Vitals:'',
     ''- **Largest Contentful Paint (LCP)**: < 2.5s'',
     ''- **First Input Delay (FID)**: < 100ms'',
     ''- **Cumulative Layout Shift (CLS)**: < 0.1'',
     '''',
     ''## Optimization Strategies:'',
     '''',
     ''### Loading Performance:'',
     ''- Implement code splitting and lazy loading'',
     ''- Optimize images (WebP, AVIF, proper sizing)'',
     ''- Use efficient bundling strategies'',
     ''- Implement proper caching strategies'',
     ''- Minimize and compress assets'',
     ''- Use CDN for static assets'',
     '''',
     ''### Runtime Performance:'',
     ''- Avoid blocking the main thread'',
     ''- Implement virtual scrolling for large lists'',
     ''- Use web workers for heavy computations'',
     ''- Optimize DOM manipulations'',
     ''- Implement efficient event handling'',
     ''- Use requestAnimationFrame for animations'',
     '''',
     ''### Memory Management:'',
     ''- Clean up event listeners and subscriptions'',
     ''- Avoid memory leaks in closures'',
     ''- Use WeakMap/WeakSet for caching'',
     ''- Implement proper garbage collection patterns'',
     '''',
     ''### Bundle Optimization:'',
     ''- Tree shaking for unused code'',
     ''- Module federation for micro-frontends'',
     ''- Dynamic imports for route-based splitting'',
     ''- Analyze bundle size regularly'',
     '''',
     ''## Measurement Tools:'',
     ''- Lighthouse'',
     ''- Chrome DevTools Performance tab'',
     ''- Web Vitals extension'',
     ''- Bundle analyzers'',
     '''',
     ''Always measure before and after optimizations to validate improvements.'']\<close>

definition accessibilityPrompt :: string where
  \<open>accessibilityPrompt = join_str ''\<newline>''
    [''# Frontend Accessibility (A11y)'',
     '''',
     ''You are an expert in web accessibility. When developing accessible web applications:'',
     '''',
     ''## WCAG 2.1 Guidelines:'',
     ''- **Perceivable**: Information must be presentable in ways users can perceive'',
     ''- **Operable**: Interface components must be operable'',
     ''- **Understandable**: Information and UI operation must be understandable'',
     ''- **Robust**: Content must be robust enough for various assistive technologies'',
     '''',
     ''## Key Accessibility Practices:'',
     '''',
     ''### Semantic HTML:'',
     ''- Use proper heading hierarchy (h1-h6)'',
     ''- Use semantic elements (nav, main, article, section, aside)'',
     ''- Implement proper form labels and fieldsets'',
     ''- Use lists for grouped content'',
     ''- Provide alternative text for images'',
     '''',
     ''### ARIA Implementation:'',
     ''- Use ARIA labels and descriptions appropriately'',
     ''- Implement proper ARIA roles'',
     ''- Manage focus and keyboard navigation'',
     ''- Use ARIA live regions for dynamic content'',
     ''- Implement skip links for navigation'',
     '''',
     ''### Keyboard Navigation:'',
     ''- Ensure all interactive elements are keyboard accessible'',
     ''- Implement proper focus management'',
     ''- Use logical tab order'',
     ''- Provide visible focus indicators'',
     ''- Support standard keyboard shortcuts'',
     '''',
     ''### Color and Contrast:'',
     ''- Maintain minimum contrast ratios (4.5:1 for normal text, 3:1 for large text)'',
     ''- Don't rely solely on color for information'',
     ''- Support high contrast modes'',
     ''- Test with colorblindness simulators'',
     '''',
     ''### Screen Reader Support:'',
     ''- Test with screen readers (NVDA, JAWS, VoiceOver)'',
     ''- Provide meaningful text alternatives'',
     ''- Use proper heading structure'',
     ''- Implement descriptive link text'',
     '''',
     ''## Testing Tools:'',
     ''- axe-core browser extension'',
     ''- Lighthouse accessibility audit'',
     ''- Screen reader testing'',
     ''- Keyboard-only navigation testing'',
     ''- Color contrast analyzers'',
     '''',
     ''Always test with real users and assistive technologies when possible.'']\<close>

definition codeQualityPrompt :: string where
  \<open>codeQualityPrompt = join_str ''\<newline>''
    [''# Code Quality and Best Practices'',
     '''',
     ''You are an expert software developer focused on code quality. When writing and reviewing code:'',
     '''',
     ''## Code Quality Principles:'',
     '''',
     ''### Clean Code:'',
     ''- Write self-documenting code with clear variable and function names'',
     ''- Keep functions small and focused on single responsibility'',
     ''- Use consistent naming conventions'',
     ''- Avoid deep nesting and complex conditional logic'',
     ''- Write meaningful comments for complex business logic'',
     ''- Remove dead code and unused imports'',
     '''',
     ''### SOLID Principles:'',
     ''- **Single Responsibility**: Each class/function should have one reason to change'',
     ''- **Open/Closed**: Open for extension, closed for modification'',
     ''- **Liskov Substitution**: Derived classes must be substitutable for base classes'',
     ''- **Interface Segregation**: Clients shouldn't depend on interfaces they don't use'',
     ''- **Dependency Inversion**: Depend on abstractions, not concretions'',
     '''',
     ''### Error Handling:'',
     ''- Implement comprehensive error handling'',
     ''- Use appropriate error types and messages'',
     ''- Log errors with sufficient context'',
     ''- Provide graceful fallbacks'',
     ''- Validate inputs and handle edge cases'',
     '''',
     ''### Testing:'',
     ''- Write unit tests for all business logic'',
     ''- Implement integration tests for critical paths'',
     ''- Use test-driven development (TDD) when appropriate'',
     ''- Maintain high test coverage (aim for 80%+)'',
     ''- Write clear, descriptive test names'',
     '''',
     ''### Code Organization:'',
     ''- Use consistent file and folder structure'',
     ''- Implement proper separation of concerns'',
     ''- Follow established architectural patterns'',
     ''- Use meaningful module boundaries'',
     ''- Document architectural decisions'',
     '''',
     ''### Performance:'',
     ''- Optimize for readability first, performance second'',
     ''- Avoid premature optimization'',
     ''- Profile before optimizing'',
     ''- Use appropriate data structures and algorithms'',
     ''- Consider memory usage and garbage collection'',
     '''',
     ''Always prioritize maintainability and readability over clever solutions.'']\<close>

section \<open>The prompt library and its initialisation\<close>

text \<open>
  \<open>type PromptCategory = "react" | "fe" | "common"\<close>; every handler parameter that names a
  category is validated by \<open>z.enum(["react", "fe", "common"])\<close> before the handler runs.
\<close>

datatype PromptCategory = React | Fe | Common

fun category_key :: "PromptCategory \<Rightarrow> string" where
  "category_key React = ''react''"
| "category_key Fe = ''fe''"
| "category_key Common = ''common''"

text \<open>\<open>interface PromptLibrary { [category: string]: { [promptName: string]: string } }\<close>\<close>

type_synonym PromptLibrary = "string js_object js_object"

text \<open>
  \<open>this.promptLibrary[category]\<close>. The handlers read the library only at the three category
  keys and at keys taken from \<open>Object.keys(this.promptLibrary)\<close>. None of the former is a
  member of \<open>Object.prototype\<close> (lemma \<open>category_key_not_inherited\<close>) and the latter are own
  properties, so the read gives the own property or \<open>undefined\<close> (\<open>None\<close>).
\<close>

definition library_get :: "PromptLibrary \<Rightarrow> string \<Rightarrow> string js_object option" where
  "library_get lib category = map_of lib category"

record server_state =
  promptLibrary :: PromptLibrary

text \<open>\<open>private promptLibrary: PromptLibrary = {}\<close>\<close>

definition initial_state :: server_state where
  "initial_state = \<lparr>promptLibrary = []\<rparr>"

text \<open>
  \<open>loadPrompts\<close> assigns the library literal inside \<open>try\<close>; its \<open>catch\<close> assigns \<open>{}\<close>. Whether the
  \<open>try\<close> block throws is the argument.
\<close>

datatype load_outcome = LoadSucceeds | LoadThrows string

fun loadPrompts :: "load_outcome \<Rightarrow> server_state \<Rightarrow> server_state" where
  "loadPrompts LoadSucceeds st =
     st\<lparr>promptLibrary :=
       [(''react'',
           [(''component-creation'', componentCreationPrompt),
            (''state-management'', stateManagementPrompt)]),
        (''fe'',
           [(''performance-optimization'', performanceOptimizationPrompt),
            (''accessibility'', accessibilityPrompt)]),
        (''common'',
           [(''code-quality'', codeQualityPrompt)])]\<rparr>"
| "loadPrompts (LoadThrows e) st = st\<lparr>promptLibrary := []\<rparr>"

text \<open>\<open>init\<close> awaits \<open>loadPrompts\<close> and then registers the five tools.\<close>

definition init :: "load_outcome \<Rightarrow> server_state" where
  "init outcome = loadPrompts outcome initial_state"

section \<open>The five tools\<close>

record categories_payload =
  categories :: "string list"
  description :: string

record combined_payload =
  combined_prompt :: string
  included_prompts :: "(string \<times> string) list"
  total_prompts :: nat
  categories_processed :: "string list"

text \<open>An element of \<open>searchResults\<close>, and an element of the \<open>results\<close> that are returned.\<close>

record search_match =
  category :: string
  name :: string
  content :: string
  relevance :: nat

record search_result =
  result_category :: string
  result_name :: string
  result_relevance :: nat
  snippet :: string

text \<open>
  What a handler returns, one constructor per \<open>return\<close> statement shape. The payloads that the
  source passes through \<open>JSON.stringify\<close> are kept as the objects they are; the error texts
  are given by \<open>message_text\<close>. \<open>PromptText\<close> carries the value the source puts into the
  \<open>text\<close> field unchanged.

  Every handler body is a \<open>try\<close> block. In \<open>get_prompts_by_category\<close>, \<open>get_prompt\<close> and
  \<open>combine_prompts\<close> nothing inside it throws (property reads on objects, string and array
  operations), so their \<open>catch\<close> blocks have no counterpart here. In \<open>search_prompts\<close> the
  regular expression constructor can throw; its \<open>catch\<close> block gives \<open>SearchError\<close>.
\<close>

datatype response =
    Categories categories_payload
  | CategoryNotFound string
  | CategoryPrompts string "(string \<times> js_value) list" nat
  | PromptNotFound string string
  | PromptText js_value
  | NoPromptsFound
  | CombinedPrompts combined_payload
  | SearchResults string "search_result list" nat
  | SearchError string

definition quoted :: "string \<Rightarrow> string" where
  "quoted s = [CHR 0x27] @ s @ [CHR 0x27]"

fun message_text :: "response \<Rightarrow> string option" where
  "message_text (CategoryNotFound c) = Some (''Error: Category '' @ quoted c @ '' not found'')"
| "message_text (PromptNotFound n c) =
     Some (''Error: Prompt '' @ quoted n @ '' not found in category '' @ quoted c)"
| "message_text NoPromptsFound = Some ''No prompts found for the specified categories''"
| "message_text (SearchError msg) = Some (''Error searching prompts: '' @ msg)"
| "message_text r = None"

subsection \<open>\<open>get_categories\<close>\<close>

definition get_categories :: "PromptLibrary \<Rightarrow> response" where
  "get_categories lib =
     Categories \<lparr>categories = Object_keys lib,
                 description = ''Available prompt categories in the library''\<rparr>"

subsection \<open>\<open>get_prompts_by_category\<close>\<close>

definition get_prompts_by_category :: "PromptLibrary \<Rightarrow> PromptCategory \<Rightarrow> response" where
  "get_prompts_by_category lib cat =
     (case library_get lib (category_key cat) of
        None \<Rightarrow> CategoryNotFound (category_key cat)
      | Some categoryPrompts \<Rightarrow>
          (let promptList =
                 map (\<lambda>n. (n, get_property categoryPrompts n)) (Object_keys categoryPrompts)
           in CategoryPrompts (category_key cat) promptList (length promptList)))"

subsection \<open>\<open>get_prompt\<close>\<close>

definition get_prompt :: "PromptLibrary \<Rightarrow> PromptCategory \<Rightarrow> string \<Rightarrow> response" where
  "get_prompt lib cat nm =
     (case library_get lib (category_key cat) of
        None \<Rightarrow> CategoryNotFound (category_key cat)
      | Some categoryPrompts \<Rightarrow>
          (let prompt = get_property categoryPrompts nm
           in if \<not> truthy prompt then PromptNotFound nm (category_key cat)
              else PromptText prompt))"

subsection \<open>\<open>combine_prompts\<close>\<close>

text \<open>\<open>z.string().optional().default("\n\n---\n\n")\<close>: the handler always receives a separator.\<close>

definition default_separator :: string where
  "default_separator = ''\<newline>\<newline>---\<newline>\<newline>''"

definition separator_argument :: "string option \<Rightarrow> string" where
  "separator_argument sep = (case sep of None \<Rightarrow> default_separator | Some s \<Rightarrow> s)"

text \<open>The template literal pushed onto \<open>combinedPrompts\<close>.\<close>

definition prompt_block :: "string \<Rightarrow> string \<Rightarrow> string \<Rightarrow> string" where
  "prompt_block cat nm body =
     ''# Category: '' @ toUpperCase cat @ ''\<newline># Prompt: '' @ nm @ ''\<newline>\<newline>'' @ body"

text \<open>
  The inner loop over \<open>Object.entries(categoryPrompts)\<close> and the outer loop over
  \<open>categories\<close>; the accumulator is the pair \<open>(combinedPrompts, includedPrompts)\<close>.
\<close>

fun combine_entries ::
  "string \<Rightarrow> (string \<times> string) list \<Rightarrow> string list \<times> (string \<times> string) list
     \<Rightarrow> string list \<times> (string \<times> string) list" where
  "combine_entries cat [] acc = acc"
| "combine_entries cat ((nm, body) # rest) (combinedPrompts, includedPrompts) =
     combine_entries cat rest
       (combinedPrompts @ [prompt_block cat nm body], includedPrompts @ [(cat, nm)])"

fun combine_loop ::
  "PromptLibrary \<Rightarrow> string list \<Rightarrow> string list \<times> (string \<times> string) list
     \<Rightarrow> string list \<times> (string \<times> string) list" where
  "combine_loop lib [] acc = acc"
| "combine_loop lib (cat # cats) acc =
     (case library_get lib cat of
        None \<Rightarrow> combine_loop lib cats acc
      | Some categoryPrompts \<Rightarrow>
          combine_loop lib cats (combine_entries cat (Object_entries categoryPrompts) acc))"

definition combine_prompts :: "PromptLibrary \<Rightarrow> PromptCategory list \<Rightarrow> string \<Rightarrow> response" where
  "combine_prompts lib cats separator =
     (case combine_loop lib (map category_key cats) ([], []) of
        (combinedPrompts, includedPrompts) \<Rightarrow>
          if length combinedPrompts = 0 then NoPromptsFound
          else CombinedPrompts
                 \<lparr>combined_prompt = join_str separator combinedPrompts,
                  included_prompts = includedPrompts,
                  total_prompts = length combinedPrompts,
                  categories_processed = map category_key cats\<rparr>)"

subsection \<open>\<open>search_prompts\<close>\<close>

text \<open>
  The inner loop over \<open>Object.entries(categoryPrompts)\<close>; the accumulator is \<open>searchResults\<close>.
  \<open>new RegExp\<close> is the one call that can throw; the exception leaves both loops and reaches
  the handler's \<open>catch\<close>, hence the result \<open>Inl msg\<close>.
\<close>

fun search_entries ::
  "regexp_engine \<Rightarrow> string \<Rightarrow> string \<Rightarrow> (string \<times> string) list \<Rightarrow> search_match list
     \<Rightarrow> string + search_match list" where
  "search_entries rx keyword cat [] searchResults = Inr searchResults"
| "search_entries rx keyword cat ((nm, body) # rest) searchResults =
     (let lowerKeyword = toLowerCase keyword;
          lowerContent = toLowerCase body;
          lowerName = toLowerCase nm
      in if includes_str lowerContent lowerKeyword \<or> includes_str lowerName lowerKeyword
         then (case rx lowerKeyword (toLowerCase body) of
                 Inl msg \<Rightarrow> Inl msg
               | Inr n \<Rightarrow>
                   search_entries rx keyword cat rest
                     (searchResults @
                      [\<lparr>category = cat, name = nm, content = body,
                        relevance = (if includes_str lowerName lowerKeyword then 10 else 0) + n\<rparr>]))
         else search_entries rx keyword cat rest searchResults)"

fun search_loop ::
  "regexp_engine \<Rightarrow> PromptLibrary \<Rightarrow> string \<Rightarrow> string list \<Rightarrow> search_match list
     \<Rightarrow> string + search_match list" where
  "search_loop rx lib keyword [] searchResults = Inr searchResults"
| "search_loop rx lib keyword (cat # cats) searchResults =
     (case library_get lib cat of
        None \<Rightarrow> search_loop rx lib keyword cats searchResults
      | Some categoryPrompts \<Rightarrow>
          (case search_entries rx keyword cat (Object_entries categoryPrompts) searchResults of
             Inl msg \<Rightarrow> Inl msg
           | Inr searchResults' \<Rightarrow> search_loop rx lib keyword cats searchResults'))"

text \<open>
  \<open>searchResults.sort((a, b) => b.relevance - a.relevance)\<close>. \<open>Array.prototype.sort\<close> is a
  stable sort (ECMAScript 2019), and the comparator orders by descending relevance; the
  result of a stable sort is determined by its input and the order, so it is the list that
  the stable insertion sort \<^const>\<open>sort_key\<close> gives for the key \<open>- relevance\<close>.
\<close>

definition sort_by_relevance :: "search_match list \<Rightarrow> search_match list" where
  "sort_by_relevance ms = sort_key (\<lambda>m. - int (relevance m)) ms"

definition to_result :: "search_match \<Rightarrow> search_result" where
  "to_result m =
     \<lparr>result_category = category m, result_name = name m, result_relevance = relevance m,
      snippet = substring0 (content m) 200 @ (if length (content m) > 200 then ''...'' else [])\<rparr>"

text \<open>\<open>categories || Object.keys(this.promptLibrary)\<close>: an array, even an empty one, is truthy.\<close>

definition searchCategories :: "PromptLibrary \<Rightarrow> PromptCategory list option \<Rightarrow> string list" where
  "searchCategories lib cats =
     (case cats of None \<Rightarrow> Object_keys lib | Some cs \<Rightarrow> map category_key cs)"

definition search_prompts ::
  "regexp_engine \<Rightarrow> PromptLibrary \<Rightarrow> string \<Rightarrow> PromptCategory list option \<Rightarrow> response" where
  "search_prompts rx lib keyword cats =
     (case search_loop rx lib keyword (searchCategories lib cats) [] of
        Inl msg \<Rightarrow> SearchError msg
      | Inr searchResults \<Rightarrow>
          (let sorted_results = sort_by_relevance searchResults
           in SearchResults keyword (map to_result sorted_results) (length sorted_results)))"

subsection \<open>The handlers on the server state\<close>

text \<open>
  The functions above give each handler's response from the library it finds. To say what
  a call does to the server, the handlers are embedded once more as they run: on the server
  state, which every evaluation of \<open>this.promptLibrary\<close> reads and which every statement
  passes on. An expression \<open>this.promptLibrary\<close> is \<open>read_promptLibrary\<close>: it gives the value
  of the field and the state after the read. An assignment \<open>this.promptLibrary = v\<close>, as
  \<open>loadPrompts\<close> has two, gives the state \<open>st\<lparr>promptLibrary := v\<rparr>\<close>. The arrays
  \<open>combinedPrompts\<close>, \<open>includedPrompts\<close> and \<open>searchResults\<close> are local to one call and are
  not part of the server state.
\<close>

definition read_promptLibrary :: "server_state \<Rightarrow> PromptLibrary \<times> server_state" where
  "read_promptLibrary st = (promptLibrary st, st)"

definition get_categories_handler :: "server_state \<Rightarrow> response \<times> server_state" where
  "get_categories_handler st =
     (case read_promptLibrary st of
        (lib, st1) \<Rightarrow>
          (Categories \<lparr>categories = Object_keys lib,
                       description = ''Available prompt categories in the library''\<rparr>, st1))"

definition get_prompts_by_category_handler ::
  "PromptCategory \<Rightarrow> server_state \<Rightarrow> response \<times> server_state" where
  "get_prompts_by_category_handler cat st =
     (case read_promptLibrary st of
        (lib, st1) \<Rightarrow>
          (case library_get lib (category_key cat) of
             None \<Rightarrow> (CategoryNotFound (category_key cat), st1)
           | Some categoryPrompts \<Rightarrow>
               (let promptList =
                      map (\<lambda>n. (n, get_property categoryPrompts n)) (Object_keys categoryPrompts)
                in (CategoryPrompts (category_key cat) promptList (length promptList), st1))))"

definition get_prompt_handler ::
  "PromptCategory \<Rightarrow> string \<Rightarrow> server_state \<Rightarrow> response \<times> server_state" where
  "get_prompt_handler cat nm st =
     (case read_promptLibrary st of
        (lib, st1) \<Rightarrow>
          (case library_get lib (category_key cat) of
             None \<Rightarrow> (CategoryNotFound (category_key cat), st1)
           | Some categoryPrompts \<Rightarrow>
               (let prompt = get_property categoryPrompts nm
                in if \<not> truthy prompt then (PromptNotFound nm (category_key cat), st1)
                   else (PromptText prompt, st1))))"

text \<open>The loop over \<open>categories\<close> reads \<open>this.promptLibrary\<close> once in every iteration.\<close>

fun combine_loop_handler ::
  "string list \<Rightarrow> string list \<times> (string \<times> string) list \<Rightarrow> server_state
     \<Rightarrow> (string list \<times> (string \<times> string) list) \<times> server_state" where
  "combine_loop_handler [] acc st = (acc, st)"
| "combine_loop_handler (cat # cats) acc st =
     (case read_promptLibrary st of
        (lib, st1) \<Rightarrow>
          (case library_get lib cat of
             None \<Rightarrow> combine_loop_handler cats acc st1
           | Some categoryPrompts \<Rightarrow>
               combine_loop_handler cats
                 (combine_entries cat (Object_entries categoryPrompts) acc) st1))"

definition combine_prompts_handler ::
  "PromptCategory list \<Rightarrow> string \<Rightarrow> server_state \<Rightarrow> response \<times> server_state" where
  "combine_prompts_handler cats separator st =
     (case combine_loop_handler (map category_key cats) ([], []) st of
        ((combinedPrompts, includedPrompts), st1) \<Rightarrow>
          if length combinedPrompts = 0 then (NoPromptsFound, st1)
          else (CombinedPrompts
                  \<lparr>combined_prompt = join_str separator combinedPrompts,
                   included_prompts = includedPrompts,
                   total_prompts = length combinedPrompts,
                   categories_processed = map category_key cats\<rparr>, st1))"

text \<open>
  \<open>categories || Object.keys(this.promptLibrary)\<close> reads the field only when \<open>categories\<close> is
  absent; the loop over \<open>searchCategories\<close> reads it once in every iteration. An exception
  of the regular expression constructor ends the loop in the state it was thrown in.
\<close>

definition searchCategories_handler ::
  "PromptCategory list option \<Rightarrow> server_state \<Rightarrow> string list \<times> server_state" where
  "searchCategories_handler cats st =
     (case cats of
        None \<Rightarrow> (case read_promptLibrary st of (lib, st1) \<Rightarrow> (Object_keys lib, st1))
      | Some cs \<Rightarrow> (map category_key cs, st))"

fun search_loop_handler ::
  "regexp_engine \<Rightarrow> string \<Rightarrow> string list \<Rightarrow> search_match list \<Rightarrow> server_state
     \<Rightarrow> (string + search_match list) \<times> server_state" where
  "search_loop_handler rx keyword [] searchResults st = (Inr searchResults, st)"
| "search_loop_handler rx keyword (cat # cats) searchResults st =
     (case read_promptLibrary st of
        (lib, st1) \<Rightarrow>
          (case library_get lib cat of
             None \<Rightarrow> search_loop_handler rx keyword cats searchResults st1
           | Some categoryPrompts \<Rightarrow>
               (case search_entries rx keyword cat (Object_entries categoryPrompts) searchResults of
                  Inl msg \<Rightarrow> (Inl msg, st1)
                | Inr searchResults' \<Rightarrow> search_loop_handler rx keyword cats searchResults' st1)))"

definition search_prompts_handler ::
  "regexp_engine \<Rightarrow> string \<Rightarrow> PromptCategory list option \<Rightarrow> server_state
     \<Rightarrow> response \<times> server_state" where
  "search_prompts_handler rx keyword cats st =
     (case searchCategories_handler cats st of
        (categories_to_search, st1) \<Rightarrow>
          (case search_loop_handler rx keyword categories_to_search [] st1 of
             (Inl msg, st2) \<Rightarrow> (SearchError msg, st2)
           | (Inr searchResults, st2) \<Rightarrow>
               (let sorted_results = sort_by_relevance searchResults
                in (SearchResults keyword (map to_result sorted_results) (length sorted_results),
                    st2))))"

subsection \<open>The dispatcher's view: a tool call on the server state\<close>

datatype request =
    GetCategories
  | GetPromptsByCategory PromptCategory
  | GetPrompt PromptCategory string
  | CombinePrompts "PromptCategory list" "string option"
  | SearchPrompts string "PromptCategory list option"

text \<open>
  A call runs the handler of the requested tool on the state of the server and returns the
  handler's response together with the state the handler leaves; a sequence of calls runs
  each call in the state the one before it left.
\<close>

fun call_tool :: "regexp_engine \<Rightarrow> server_state \<Rightarrow> request \<Rightarrow> response \<times> server_state" where
  "call_tool rx st GetCategories = get_categories_handler st"
| "call_tool rx st (GetPromptsByCategory c) = get_prompts_by_category_handler c st"
| "call_tool rx st (GetPrompt c n) = get_prompt_handler c n st"
| "call_tool rx st (CombinePrompts cs sep) =
     combine_prompts_handler cs (separator_argument sep) st"
| "call_tool rx st (SearchPrompts k cs) = search_prompts_handler rx k cs st"

fun call_tools :: "regexp_engine \<Rightarrow> server_state \<Rightarrow> request list \<Rightarrow> server_state" where
  "call_tools rx st [] = st"
| "call_tools rx st (r # rs) = call_tools rx (snd (call_tool rx st r)) rs"

section \<open>Notions used to state the properties\<close>

text \<open>
  The prompts of a list of category keys, as triples of category, name and body: the
  categories in the order of the list, each category's prompts in the order of its object,
  a key that is not in the library contributing none.
\<close>

definition category_entries :: "PromptLibrary \<Rightarrow> string \<Rightarrow> (string \<times> string \<times> string) list" where
  "category_entries lib cat =
     (case library_get lib cat of
        None \<Rightarrow> []
      | Some ps \<Rightarrow> map (\<lambda>(n, b). (cat, n, b)) ps)"

definition library_entries :: "PromptLibrary \<Rightarrow> string list \<Rightarrow> (string \<times> string \<times> string) list" where
  "library_entries lib cats = concat (map (category_entries lib) cats)"

text \<open>The keyword, lower-cased, is a substring of the lower-cased body or name.\<close>

fun keyword_matches :: "string \<Rightarrow> string \<times> string \<times> string \<Rightarrow> bool" where
  "keyword_matches kw (c, n, b) =
     (includes_str (toLowerCase b) (toLowerCase kw) \<or>
      includes_str (toLowerCase n) (toLowerCase kw))"

text \<open>The element pushed onto \<open>searchResults\<close> for a matching prompt when the engine does not throw.\<close>

fun found_match :: "regexp_engine \<Rightarrow> string \<Rightarrow> string \<times> string \<times> string \<Rightarrow> search_match" where
  "found_match rx kw (c, n, b) =
     \<lparr>category = c, name = n, content = b,
      relevance = (if includes_str (toLowerCase n) (toLowerCase kw) then 10 else 0) +
                  (case rx (toLowerCase kw) (toLowerCase b) of Inr k \<Rightarrow> k | Inl msg \<Rightarrow> 0)\<rparr>"

fun engine_accepts :: "regexp_engine \<Rightarrow> string \<Rightarrow> string \<times> string \<times> string \<Rightarrow> bool" where
  "engine_accepts rx kw (c, n, b) = (\<not> isl (rx (toLowerCase kw) (toLowerCase b)))"

fun entry_block :: "string \<times> string \<times> string \<Rightarrow> string" where
  "entry_block (c, n, b) = prompt_block c n b"

fun entry_id :: "string \<times> string \<times> string \<Rightarrow> string \<times> string" where
  "entry_id (c, n, b) = (c, n)"

definition result_id :: "search_result \<Rightarrow> string \<times> string" where
  "result_id r = (result_category r, result_name r)"

fun is_category_not_found :: "response \<Rightarrow> bool" where
  "is_category_not_found (CategoryNotFound c) = True"
| "is_category_not_found r = False"

section \<open>Facts about the built-ins\<close>

text \<open>
  Lower-casing read off the bits of the code unit: the letters \<open>A\<close> to \<open>Z\<close> and the Latin-1
  capitals are the code units with bit 6 set and bit 5 clear, apart from \<open>0x40\<close>, \<open>0x5B\<close> to
  \<open>0x5F\<close>, \<open>0xD7\<close> and \<open>0xDF\<close>; lower-casing sets bit 5.
\<close>

lemma toLowerCase_char_bits [code]:
  "toLowerCase_char (Char b0 b1 b2 b3 b4 b5 b6 b7) =
     (if b6 \<and> \<not> b5 \<and>
         (if b7 then \<not> (b0 \<and> b1 \<and> b2 \<and> b4)
          else (b0 \<or> b1 \<or> b2 \<or> b3 \<or> b4) \<and> \<not> (b4 \<and> b3 \<and> (b2 \<or> (b1 \<and> b0))))
      then Char b0 b1 b2 b3 b4 True b6 b7
      else Char b0 b1 b2 b3 b4 b5 b6 b7)"
  by (cases b0; cases b1; cases b2; cases b3; cases b4; cases b5; cases b6; cases b7)
     (simp_all add: toLowerCase_char_def Let_def char_of_def bit_Suc_0_iff)

lemma line_terminator_toLowerCase_char:
  "line_terminator (toLowerCase_char c) = line_terminator c"
  by (cases c) (auto simp: toLowerCase_char_bits line_terminator_def)

text \<open>A code unit with bit 6 clear is neither changed nor produced by lower-casing.\<close>

lemma toLowerCase_char_eq_iff:
  "\<not> digit6 x \<Longrightarrow> (toLowerCase_char c = x) = (c = x)"
proof (cases c)
  case (Char b0 b1 b2 b3 b4 b5 b6 b7)
  assume x: "\<not> digit6 x"
  show ?thesis
  proof (cases "toLowerCase_char c = c")
    case True
    then show ?thesis by simp
  next
    case False
    with Char have "digit6 (toLowerCase_char c)" and "digit6 c"
      by (auto simp: toLowerCase_char_bits split: if_splits)
    with x show ?thesis by auto
  qed
qed

text \<open>Lower-casing produces no syntax character, so it keeps a pattern literal.\<close>

lemma toLowerCase_char_not_syntax:
  assumes "c \<notin> set syntax_characters"
  shows "toLowerCase_char c \<notin> set syntax_characters"
proof (cases "toLowerCase_char c = c")
  case True
  with assms show ?thesis by simp
next
  case False
  obtain b0 b1 b2 b3 b4 b5 b6 b7 where c: "c = Char b0 b1 b2 b3 b4 b5 b6 b7"
    by (cases c)
  with False have low: "toLowerCase_char c = Char b0 b1 b2 b3 b4 True b6 b7"
    and up: "b6" "\<not> b5"
    and rng: "if b7 then \<not> (b0 \<and> b1 \<and> b2 \<and> b4)
              else (b0 \<or> b1 \<or> b2 \<or> b3 \<or> b4) \<and> \<not> (b4 \<and> b3 \<and> (b2 \<or> (b1 \<and> b0)))"
    by (auto simp: toLowerCase_char_bits split: if_splits)
  from up rng show ?thesis
    unfolding low syntax_characters_def by (auto split: if_splits)
qed

lemma literal_pattern_toLowerCase:
  "literal_pattern kw \<Longrightarrow> literal_pattern (toLowerCase kw)"
  by (induction kw) (simp_all add: literal_pattern_def toLowerCase_def toLowerCase_char_not_syntax)

lemma length_toLowerCase: "length (toLowerCase s) = length s"
  by (simp add: toLowerCase_def)

lemma toLowerCase_Nil: "toLowerCase [] = []"
  by (simp add: toLowerCase_def)

lemma filter_toLowerCase_terminator:
  "length (filter (\<lambda>c. \<not> line_terminator c) (toLowerCase s)) =
   length (filter (\<lambda>c. \<not> line_terminator c) s)"
  by (simp add: toLowerCase_def filter_map o_def line_terminator_toLowerCase_char)

lemma filter_toLowerCase_fixed:
  "\<not> digit6 x \<Longrightarrow>
   filter (\<lambda>c. c = x) (toLowerCase s) = map toLowerCase_char (filter (\<lambda>c. c = x) s)"
  by (simp add: toLowerCase_def filter_map o_def toLowerCase_char_eq_iff)

lemma includes_str_Nil: "includes_str s []"
  by (induction s) simp_all

lemma includes_str_single: "includes_str s [x] = (x \<in> set s)"
  by (induction s) auto

lemma includes_toLowerCase_fixed:
  assumes "\<not> digit6 x" and "0 < length (filter (\<lambda>c. c = x) s)"
  shows "includes_str (toLowerCase s) [x]"
proof -
  from assms have "filter (\<lambda>c. c = x) (toLowerCase s) \<noteq> []"
    by (simp add: filter_toLowerCase_fixed)
  then have "x \<in> set (toLowerCase s)"
    by (auto simp: filter_empty_conv)
  then show ?thesis by (simp add: includes_str_single)
qed

lemma count_matches_single: "count_matches [x] s = length (filter (\<lambda>c. c = x) s)"
proof (induction s)
  case Nil
  show ?case by simp
next
  case (Cons c cs)
  then show ?case by (cases "c = x") simp_all
qed

lemma join_str_append:
  "xs \<noteq> [] \<Longrightarrow> ys \<noteq> [] \<Longrightarrow> join_str sep (xs @ ys) = join_str sep xs @ sep @ join_str sep ys"
proof (induction sep xs rule: join_str.induct)
  case (1 sep)
  then show ?case by simp
next
  case (2 sep x)
  then show ?case by (cases ys) simp_all
next
  case (3 sep x y ys')
  then show ?case by simp
qed

text \<open>Every block but the last is followed by the separator, and the last one ends the text.\<close>

lemma join_str_butlast:
  "xs \<noteq> [] \<Longrightarrow> join_str sep xs = concat (map (\<lambda>b. b @ sep) (butlast xs)) @ last xs"
  by (induction sep xs rule: join_str.induct) simp_all

lemma length_filter_join_str:
  "length (filter P (join_str sep ls)) =
     sum_list (map (\<lambda>l. length (filter P l)) ls) + (length ls - 1) * length (filter P sep)"
  by (induction sep ls rule: join_str.induct) simp_all

lemma filter_filter_implied:
  "(\<And>x. P x \<Longrightarrow> Q x) \<Longrightarrow> filter P (filter Q xs) = filter P xs"
  by (induction xs) auto

lemma get_property_own:
  assumes "wf_object obj" and "(k, v) \<in> set obj"
  shows "get_property obj k = JSString v"
  using assms by (simp add: get_property_def wf_object_def)

lemma get_property_absent:
  assumes "k \<notin> set (Object_keys obj)" and "k \<notin> set Object_prototype_names"
  shows "get_property obj k = JSUndefined"
proof -
  from assms(1) have "map_of obj k = None"
    by (simp add: Object_keys_def map_of_eq_None_iff)
  with assms(2) show ?thesis by (simp add: get_property_def)
qed

lemma get_property_inherited:
  assumes "k \<notin> set (Object_keys obj)" and "k \<in> set Object_prototype_names"
  shows "get_property obj k = JSInherited k"
proof -
  from assms(1) have "map_of obj k = None"
    by (simp add: Object_keys_def map_of_eq_None_iff)
  with assms(2) show ?thesis by (simp add: get_property_def)
qed

lemma category_key_not_inherited: "category_key c \<notin> set Object_prototype_names"
  by (cases c) (simp_all add: Object_prototype_names_def)

lemma fragment_engine_conforms: "ecmascript_regexp fragment_engine"
  by (auto simp: ecmascript_regexp_def fragment_engine_def literal_pattern_def
        syntax_characters_def)

section \<open>Facts about the library\<close>

lemma componentCreationPrompt_nonempty: "componentCreationPrompt \<noteq> []"
  by (simp add: componentCreationPrompt_def)

lemma stateManagementPrompt_nonempty: "stateManagementPrompt \<noteq> []"
  by (simp add: stateManagementPrompt_def)

lemma performanceOptimizationPrompt_nonempty: "performanceOptimizationPrompt \<noteq> []"
  by (simp add: performanceOptimizationPrompt_def)

lemma accessibilityPrompt_nonempty: "accessibilityPrompt \<noteq> []"
  by (simp add: accessibilityPrompt_def)

lemma codeQualityPrompt_nonempty: "codeQualityPrompt \<noteq> []"
  by (simp add: codeQualityPrompt_def)

lemma codeQualityPrompt_code_units:
  "length (filter (\<lambda>c. \<not> line_terminator c) codeQualityPrompt) = 1811"
  unfolding codeQualityPrompt_def length_filter_join_str by code_simp

lemma codeQualityPrompt_dots:
  "length (filter (\<lambda>c. c = CHR ''.'') codeQualityPrompt) = 2"
  unfolding codeQualityPrompt_def length_filter_join_str by code_simp

lemma componentCreationPrompt_parenthesis:
  "0 < length (filter (\<lambda>c. c = CHR ''('') componentCreationPrompt)"
  unfolding componentCreationPrompt_def length_filter_join_str by code_simp

lemma init_failed: "promptLibrary (init (LoadThrows e)) = []"
  by (simp add: init_def initial_state_def)

lemma init_loaded:
  "promptLibrary (init LoadSucceeds) =
     [(''react'',
         [(''component-creation'', componentCreationPrompt),
          (''state-management'', stateManagementPrompt)]),
      (''fe'',
         [(''performance-optimization'', performanceOptimizationPrompt),
          (''accessibility'', accessibilityPrompt)]),
      (''common'',
         [(''code-quality'', codeQualityPrompt)])]"
  by (simp add: init_def initial_state_def)

lemma library_entries_append:
  "library_entries lib (cs @ ds) = library_entries lib cs @ library_entries lib ds"
  by (simp add: library_entries_def)

lemma library_entries_single:
  "library_get lib cat = Some ps \<Longrightarrow> library_entries lib [cat] = map (\<lambda>(n, b). (cat, n, b)) ps"
  by (simp add: library_entries_def category_entries_def)

lemma library_entries_skip:
  "library_entries lib cats = library_entries lib (filter (\<lambda>c. library_get lib c \<noteq> None) cats)"
  by (induction cats) (auto simp: library_entries_def category_entries_def)

lemma library_entries_empty_library: "library_entries [] cats = []"
  by (induction cats) (auto simp: library_entries_def category_entries_def library_get_def)

section \<open>\<open>get_prompt\<close> and \<open>get_prompts_by_category\<close>\<close>

lemma get_prompts_by_category_listing:
  assumes "library_get lib (category_key c) = Some ps" and "wf_object ps"
  shows "get_prompts_by_category lib c =
           CategoryPrompts (category_key c) (map (\<lambda>(n, b). (n, JSString b)) ps) (length ps)"
proof -
  have "map (\<lambda>n. (n, get_property ps n)) (map fst ps) = map (\<lambda>(n, b). (n, JSString b)) ps"
    using get_property_own [OF assms(2)] by (auto simp: map_eq_conv)
  with assms(1) show ?thesis
    by (simp add: get_prompts_by_category_def Object_keys_def Let_def)
qed

lemma get_prompt_registered:
  assumes "library_get lib (category_key c) = Some ps" and "wf_object ps"
    and "(n, b) \<in> set ps" and "b \<noteq> []"
  shows "get_prompt lib c n = PromptText (JSString b)"
  using assms get_property_own [OF assms(2,3)] by (simp add: get_prompt_def)

lemma get_prompt_unregistered:
  assumes "library_get lib (category_key c) = Some ps"
    and "n \<notin> set (Object_keys ps)" and "n \<notin> set Object_prototype_names"
  shows "get_prompt lib c n = PromptNotFound n (category_key c)"
  using assms(1) get_property_absent [OF assms(2,3)] by (simp add: get_prompt_def)

lemma get_prompt_inherited:
  assumes "library_get lib (category_key c) = Some ps"
    and "n \<notin> set (Object_keys ps)" and "n \<in> set Object_prototype_names"
  shows "get_prompt lib c n = PromptText (JSInherited n)"
  using assms(1) get_property_inherited [OF assms(2,3)] by (simp add: get_prompt_def)

text \<open>
  Claim C1: for every registered category and every name that is not a registered prompt
  name in it, \<open>get_prompt\<close> reports the prompt as not found. The handler tests \<open>!prompt\<close> on
  the value read with \<open>categoryPrompts[name]\<close>, and that read also finds the members a plain
  object inherits from \<open>Object.prototype\<close>. On the loaded library, where the category
  \<open>react\<close> holds the prompts \<open>component-creation\<close> and \<open>state-management\<close>, the name
  \<open>constructor\<close> is answered with the inherited member as the text and not with the
  not-found message. (For a name that is neither registered nor a member of
  \<open>Object.prototype\<close> the answer is the not-found message: \<open>get_prompt_unregistered\<close>.)
\<close>

theorem get_prompt_inherited_name:
  "library_get (promptLibrary (init LoadSucceeds)) (category_key React) =
     Some [(''component-creation'', componentCreationPrompt),
           (''state-management'', stateManagementPrompt)] \<and>
   ''constructor'' \<notin> set [''component-creation'', ''state-management''] \<and>
   get_prompt (promptLibrary (init LoadSucceeds)) React ''constructor'' =
     PromptText (JSInherited ''constructor'') \<and>
   get_prompt (promptLibrary (init LoadSucceeds)) React ''constructor'' \<noteq>
     PromptNotFound ''constructor'' (category_key React)"
  by (simp add: init_loaded library_get_def get_prompt_def get_property_def
        Object_prototype_names_def)

text \<open>
  Claim C4: for every registered category \<open>c\<close> of the library that \<open>init\<close> leaves,
  \<open>get_prompts_by_category\<close> returns the name and body pairs registered under \<open>c\<close>, in
  registration order, with their count, and \<open>get_prompt\<close> returns for each of these names
  the same body.
\<close>

theorem listed_prompts_retrievable:
  assumes "library_get (promptLibrary (init outcome)) (category_key c) = Some ps"
  shows "get_prompts_by_category (promptLibrary (init outcome)) c =
           CategoryPrompts (category_key c) (map (\<lambda>(n, b). (n, JSString b)) ps) (length ps) \<and>
         (\<forall>(n, b) \<in> set ps.
            get_prompt (promptLibrary (init outcome)) c n = PromptText (JSString b))"
proof (cases outcome)
  case (LoadThrows e)
  with assms show ?thesis by (simp add: init_failed library_get_def)
next
  case LoadSucceeds
  from assms LoadSucceeds have
    "ps = [(''component-creation'', componentCreationPrompt),
           (''state-management'', stateManagementPrompt)] \<or>
     ps = [(''performance-optimization'', performanceOptimizationPrompt),
           (''accessibility'', accessibilityPrompt)] \<or>
     ps = [(''code-quality'', codeQualityPrompt)]"
    by (cases c) (auto simp: init_loaded library_get_def)
  then have wf: "wf_object ps" and ne: "\<forall>(n, b) \<in> set ps. b \<noteq> []"
    by (elim disjE;
        simp add: wf_object_def
          componentCreationPrompt_nonempty stateManagementPrompt_nonempty
          performanceOptimizationPrompt_nonempty accessibilityPrompt_nonempty
          codeQualityPrompt_nonempty)+
  have "get_prompt (promptLibrary (init outcome)) c n = PromptText (JSString b)"
    if "(n, b) \<in> set ps" for n b
    using get_prompt_registered [OF assms wf that] ne that by auto
  with get_prompts_by_category_listing [OF assms wf] show ?thesis by auto
qed

theorem listed_prompts_retrievable_witness:
  "library_get (promptLibrary (init LoadSucceeds)) (category_key Fe) =
     Some [(''performance-optimization'', performanceOptimizationPrompt),
           (''accessibility'', accessibilityPrompt)] \<and>
   get_prompts_by_category (promptLibrary (init LoadSucceeds)) Fe =
     CategoryPrompts ''fe''
       [(''performance-optimization'', JSString performanceOptimizationPrompt),
        (''accessibility'', JSString accessibilityPrompt)] 2 \<and>
   get_prompt (promptLibrary (init LoadSucceeds)) Fe ''performance-optimization'' =
     PromptText (JSString performanceOptimizationPrompt) \<and>
   get_prompt (promptLibrary (init LoadSucceeds)) Fe ''accessibility'' =
     PromptText (JSString accessibilityPrompt)"
proof -
  have h: "library_get (promptLibrary (init LoadSucceeds)) (category_key Fe) =
     Some [(''performance-optimization'', performanceOptimizationPrompt),
           (''accessibility'', accessibilityPrompt)]"
    by (simp add: init_loaded library_get_def)
  from listed_prompts_retrievable [OF h] h show ?thesis by simp
qed

section \<open>\<open>combine_prompts\<close>\<close>

text \<open>The two loops collect the blocks and the included pairs of \<open>library_entries\<close>.\<close>

lemma combine_entries_eq:
  "combine_entries cat ps (cp, ip) =
     (cp @ map (\<lambda>(n, b). prompt_block cat n b) ps, ip @ map (\<lambda>(n, b). (cat, n)) ps)"
  by (induction ps arbitrary: cp ip) auto

lemma combine_loop_eq:
  "combine_loop lib cats (cp, ip) =
     (cp @ map entry_block (library_entries lib cats),
      ip @ map entry_id (library_entries lib cats))"
proof (induction cats arbitrary: cp ip)
  case Nil
  show ?case by (simp add: library_entries_def)
next
  case (Cons cat cats)
  show ?case
  proof (cases "library_get lib cat")
    case None
    then show ?thesis
      using Cons.IH [of cp ip] by (simp add: library_entries_def category_entries_def)
  next
    case (Some ps)
    then show ?thesis
      using Cons.IH by (auto simp add: library_entries_def category_entries_def
          combine_entries_eq Object_entries_def)
  qed
qed

lemma combine_prompts_eq:
  "combine_prompts lib cats sep =
     (if library_entries lib (map category_key cats) = [] then NoPromptsFound
      else CombinedPrompts
             \<lparr>combined_prompt = join_str sep (map entry_block (library_entries lib (map category_key cats))),
              included_prompts = map entry_id (library_entries lib (map category_key cats)),
              total_prompts = length (library_entries lib (map category_key cats)),
              categories_processed = map category_key cats\<rparr>)"
  by (simp add: combine_prompts_def combine_loop_eq)

text \<open>
  Claim C5: for two registered categories that each hold at least one prompt, the combined
  text for the list of both is the combined text for the first, the separator, and the
  combined text for the second. The blocks are joined with the separator: every block but
  the last is followed by it, and the text ends with the last block.
\<close>

theorem combine_prompts_two_categories:
  assumes "library_get lib (category_key c1) = Some ps1" and "ps1 \<noteq> []"
    and "library_get lib (category_key c2) = Some ps2" and "ps2 \<noteq> []"
  shows "\<exists>r12 r1 r2.
           combine_prompts lib [c1, c2] sep = CombinedPrompts r12 \<and>
           combine_prompts lib [c1] sep = CombinedPrompts r1 \<and>
           combine_prompts lib [c2] sep = CombinedPrompts r2 \<and>
           combined_prompt r12 = combined_prompt r1 @ sep @ combined_prompt r2 \<and>
           included_prompts r12 = included_prompts r1 @ included_prompts r2 \<and>
           total_prompts r12 = total_prompts r1 + total_prompts r2 \<and>
           combined_prompt r12 =
             concat (map (\<lambda>b. b @ sep)
               (butlast (map entry_block (library_entries lib [category_key c1, category_key c2])))) @
             last (map entry_block (library_entries lib [category_key c1, category_key c2]))"
proof -
  let ?e1 = "library_entries lib [category_key c1]"
  let ?e2 = "library_entries lib [category_key c2]"
  let ?e12 = "library_entries lib [category_key c1, category_key c2]"
  let ?payload = "\<lambda>cs es. \<lparr>combined_prompt = join_str sep (map entry_block es),
      included_prompts = map entry_id es, total_prompts = length es,
      categories_processed = map category_key cs\<rparr>"
  have e1: "?e1 \<noteq> []" using assms(1,2) by (simp add: library_entries_single)
  have e2: "?e2 \<noteq> []" using assms(3,4) by (simp add: library_entries_single)
  have e12: "?e12 = ?e1 @ ?e2"
    using library_entries_append [of lib "[category_key c1]" "[category_key c2]"] by simp
  have r1: "combine_prompts lib [c1] sep = CombinedPrompts (?payload [c1] ?e1)"
    using e1 by (simp add: combine_prompts_eq)
  have r2: "combine_prompts lib [c2] sep = CombinedPrompts (?payload [c2] ?e2)"
    using e2 by (simp add: combine_prompts_eq)
  have r12: "combine_prompts lib [c1, c2] sep = CombinedPrompts (?payload [c1, c2] ?e12)"
    using e1 e12 by (simp add: combine_prompts_eq)
  have j: "combined_prompt (?payload [c1, c2] ?e12) =
             combined_prompt (?payload [c1] ?e1) @ sep @ combined_prompt (?payload [c2] ?e2)"
    using e1 e2 by (simp add: e12 join_str_append)
  have i: "included_prompts (?payload [c1, c2] ?e12) =
             included_prompts (?payload [c1] ?e1) @ included_prompts (?payload [c2] ?e2)"
    by (simp add: e12)
  have t: "total_prompts (?payload [c1, c2] ?e12) =
             total_prompts (?payload [c1] ?e1) + total_prompts (?payload [c2] ?e2)"
    by (simp add: e12)
  have "map entry_block ?e12 \<noteq> []" using e1 e12 by simp
  then have b: "combined_prompt (?payload [c1, c2] ?e12) =
             concat (map (\<lambda>b. b @ sep) (butlast (map entry_block ?e12))) @
             last (map entry_block ?e12)"
    using join_str_butlast [of "map entry_block ?e12" sep] by simp
  from r12 r1 r2 j i t b show ?thesis by blast
qed

theorem combine_prompts_two_categories_witness:
  "library_get [(''react'', [(''a'', ''x''), (''b'', ''y'')]), (''fe'', [(''c'', ''z'')])]
       (category_key React) = Some [(''a'', ''x''), (''b'', ''y'')] \<and>
   library_get [(''react'', [(''a'', ''x''), (''b'', ''y'')]), (''fe'', [(''c'', ''z'')])]
       (category_key Fe) = Some [(''c'', ''z'')] \<and>
   (\<exists>r12 r1 r2.
      combine_prompts [(''react'', [(''a'', ''x''), (''b'', ''y'')]), (''fe'', [(''c'', ''z'')])]
          [React, Fe] ''--'' = CombinedPrompts r12 \<and>
      combine_prompts [(''react'', [(''a'', ''x''), (''b'', ''y'')]), (''fe'', [(''c'', ''z'')])]
          [React] ''--'' = CombinedPrompts r1 \<and>
      combine_prompts [(''react'', [(''a'', ''x''), (''b'', ''y'')]), (''fe'', [(''c'', ''z'')])]
          [Fe] ''--'' = CombinedPrompts r2 \<and>
      combined_prompt r12 = combined_prompt r1 @ ''--'' @ combined_prompt r2 \<and>
      combined_prompt r12 =
        ''# Category: REACT\<newline># Prompt: a\<newline>\<newline>x--# Category: REACT\<newline># Prompt: b\<newline>\<newline>y--# Category: FE\<newline># Prompt: c\<newline>\<newline>z'')"
proof -
  let ?lib = "[(''react'', [(''a'', ''x''), (''b'', ''y'')]), (''fe'', [(''c'', ''z'')])]"
  have h1: "library_get ?lib (category_key React) = Some [(''a'', ''x''), (''b'', ''y'')]"
    by code_simp
  have h2: "library_get ?lib (category_key Fe) = Some [(''c'', ''z'')]"
    by code_simp
  have ev: "combine_prompts ?lib [React, Fe] ''--'' =
     CombinedPrompts
       \<lparr>combined_prompt =
          ''# Category: REACT\<newline># Prompt: a\<newline>\<newline>x--# Category: REACT\<newline># Prompt: b\<newline>\<newline>y--# Category: FE\<newline># Prompt: c\<newline>\<newline>z'',
        included_prompts = [(''react'', ''a''), (''react'', ''b''), (''fe'', ''c'')],
        total_prompts = 3,
        categories_processed = [''react'', ''fe'']\<rparr>"
    by code_simp
  from combine_prompts_two_categories [OF h1 _ h2, of "''--''"]
  obtain r12 r1 r2 where
    "combine_prompts ?lib [React, Fe] ''--'' = CombinedPrompts r12"
    "combine_prompts ?lib [React] ''--'' = CombinedPrompts r1"
    "combine_prompts ?lib [Fe] ''--'' = CombinedPrompts r2"
    "combined_prompt r12 = combined_prompt r1 @ ''--'' @ combined_prompt r2"
    by auto
  with ev h1 h2 show ?thesis by auto
qed

text \<open>
  Claim C8: \<open>combine_prompts\<close> skips the requested categories that are not in the library:
  blocks, included pairs and count are those of the requested categories that are present,
  and nothing is reported for the others. When no block results (an empty request, a request
  of absent categories only, an empty library) the answer is the distinct result
  \<open>NoPromptsFound\<close> and not a join.
\<close>

theorem combine_prompts_skips_missing:
  "combine_prompts lib cats sep =
     (if library_entries lib (map category_key cats) = [] then NoPromptsFound
      else CombinedPrompts
             \<lparr>combined_prompt =
                join_str sep (map entry_block (library_entries lib (map category_key cats))),
              included_prompts = map entry_id (library_entries lib (map category_key cats)),
              total_prompts = length (library_entries lib (map category_key cats)),
              categories_processed = map category_key cats\<rparr>) \<and>
   library_entries lib (map category_key cats) =
     library_entries lib
       (map category_key (filter (\<lambda>c. library_get lib (category_key c) \<noteq> None) cats)) \<and>
   ((\<forall>c \<in> set cats. library_get lib (category_key c) = None) \<longrightarrow>
      combine_prompts lib cats sep = NoPromptsFound) \<and>
   combine_prompts lib [] sep = NoPromptsFound \<and>
   combine_prompts [] cats sep = NoPromptsFound"
proof -
  have skip: "library_entries lib (map category_key cats) =
     library_entries lib
       (map category_key (filter (\<lambda>c. library_get lib (category_key c) \<noteq> None) cats))"
    using library_entries_skip [of lib "map category_key cats"] by (simp add: filter_map o_def)
  have none: "(\<forall>c \<in> set cats. library_get lib (category_key c) = None) \<longrightarrow>
      combine_prompts lib cats sep = NoPromptsFound"
  proof
    assume "\<forall>c \<in> set cats. library_get lib (category_key c) = None"
    then have "filter (\<lambda>c. library_get lib (category_key c) \<noteq> None) cats = []"
      by (simp add: filter_empty_conv)
    with skip have "library_entries lib (map category_key cats) = []"
      by (simp add: library_entries_def)
    then show "combine_prompts lib cats sep = NoPromptsFound"
      by (simp add: combine_prompts_eq)
  qed
  have nil: "combine_prompts lib [] sep = NoPromptsFound"
    by (simp add: combine_prompts_eq library_entries_def)
  have empty: "combine_prompts [] cats sep = NoPromptsFound"
    by (simp add: combine_prompts_eq library_entries_empty_library)
  from combine_prompts_eq [of lib cats sep] skip none nil empty show ?thesis by blast
qed

theorem combine_prompts_skips_missing_witness:
  "library_get [(''fe'', [(''c'', ''z'')])] (category_key React) = None \<and>
   library_get [(''fe'', [(''c'', ''z'')])] (category_key Common) = None \<and>
   combine_prompts [(''fe'', [(''c'', ''z'')])] [React, Common] ''--'' = NoPromptsFound \<and>
   combine_prompts [(''fe'', [(''c'', ''z'')])] [React, Fe, Common] ''--'' =
     CombinedPrompts
       \<lparr>combined_prompt = ''# Category: FE\<newline># Prompt: c\<newline>\<newline>z'',
        included_prompts = [(''fe'', ''c'')],
        total_prompts = 1,
        categories_processed = [''react'', ''fe'', ''common'']\<rparr>"
proof -
  let ?lib = "[(''fe'', [(''c'', ''z'')])]"
  have h1: "library_get ?lib (category_key React) = None" by code_simp
  have h2: "library_get ?lib (category_key Common) = None" by code_simp
  have e: "library_entries ?lib (map category_key [React, Fe, Common]) = [(''fe'', ''c'', ''z'')]"
    by code_simp
  have b: "entry_block (''fe'', ''c'', ''z'') = ''# Category: FE\<newline># Prompt: c\<newline>\<newline>z''"
    by code_simp
  from combine_prompts_skips_missing [of ?lib "[React, Common]" "''--''"]
  have "(\<forall>c \<in> set [React, Common]. library_get ?lib (category_key c) = None) \<longrightarrow>
          combine_prompts ?lib [React, Common] ''--'' = NoPromptsFound"
    by blast
  with h1 h2 have none: "combine_prompts ?lib [React, Common] ''--'' = NoPromptsFound"
    by simp
  have some: "combine_prompts ?lib [React, Fe, Common] ''--'' =
     CombinedPrompts
       \<lparr>combined_prompt = ''# Category: FE\<newline># Prompt: c\<newline>\<newline>z'',
        included_prompts = [(''fe'', ''c'')],
        total_prompts = 1,
        categories_processed = [''react'', ''fe'', ''common'']\<rparr>"
    using conjunct1 [OF combine_prompts_skips_missing [of ?lib "[React, Fe, Common]" "''--''"]] e b
    by simp
  from h1 h2 none some show ?thesis by simp
qed

section \<open>\<open>search_prompts\<close>\<close>

text \<open>
  When the loops finish they have collected, in order, the matching prompts of
  \<open>library_entries\<close>; they finish when the engine accepts the keyword.
\<close>

lemma search_entries_Inr:
  "search_entries rx kw cat ps acc = Inr r \<Longrightarrow>
     r = acc @ map (found_match rx kw)
               (filter (keyword_matches kw) (map (\<lambda>(n, b). (cat, n, b)) ps))"
proof (induction ps arbitrary: acc)
  case Nil
  then show ?case by simp
next
  case (Cons p ps)
  obtain n b where p: "p = (n, b)" by (cases p)
  show ?case
  proof (cases "keyword_matches kw (cat, n, b)")
    case False
    with Cons p show ?thesis by (simp add: Let_def)
  next
    case True
    show ?thesis
    proof (cases "rx (toLowerCase kw) (toLowerCase b)")
      case (Inl msg)
      with Cons.prems p True show ?thesis by (simp add: Let_def)
    next
      case (Inr k)
      with Cons.prems p True
      have "search_entries rx kw cat ps (acc @ [found_match rx kw (cat, n, b)]) = Inr r"
        by (simp add: Let_def)
      from Cons.IH [OF this] p True show ?thesis by simp
    qed
  qed
qed

lemma search_entries_accepts:
  "list_all (engine_accepts rx kw)
     (filter (keyword_matches kw) (map (\<lambda>(n, b). (cat, n, b)) ps)) \<Longrightarrow>
   search_entries rx kw cat ps acc =
     Inr (acc @ map (found_match rx kw)
                 (filter (keyword_matches kw) (map (\<lambda>(n, b). (cat, n, b)) ps)))"
proof (induction ps arbitrary: acc)
  case Nil
  then show ?case by simp
next
  case (Cons p ps)
  obtain n b where p: "p = (n, b)" by (cases p)
  show ?case
  proof (cases "keyword_matches kw (cat, n, b)")
    case False
    with Cons p show ?thesis by (simp add: Let_def)
  next
    case True
    with Cons.prems p obtain k where k: "rx (toLowerCase kw) (toLowerCase b) = Inr k"
      by (cases "rx (toLowerCase kw) (toLowerCase b)") auto
    from Cons.prems p True
    have "list_all (engine_accepts rx kw)
            (filter (keyword_matches kw) (map (\<lambda>(n, b). (cat, n, b)) ps))"
      by simp
    from Cons.IH [OF this] p True k show ?thesis by (simp add: Let_def)
  qed
qed

lemma search_loop_Inr:
  "search_loop rx lib kw cats acc = Inr r \<Longrightarrow>
     r = acc @ map (found_match rx kw) (filter (keyword_matches kw) (library_entries lib cats))"
proof (induction cats arbitrary: acc)
  case Nil
  then show ?case by (simp add: library_entries_def)
next
  case (Cons cat cats)
  show ?case
  proof (cases "library_get lib cat")
    case None
    with Cons show ?thesis by (simp add: library_entries_def category_entries_def)
  next
    case (Some ps)
    with Cons.prems obtain acc' where
      a: "search_entries rx kw cat ps acc = Inr acc'" and
      l: "search_loop rx lib kw cats acc' = Inr r"
      by (auto simp: Object_entries_def split: sum.splits)
    from search_entries_Inr [OF a] Cons.IH [OF l] Some show ?thesis
      by (simp add: library_entries_def category_entries_def)
  qed
qed

lemma search_loop_accepts:
  "list_all (engine_accepts rx kw) (filter (keyword_matches kw) (library_entries lib cats)) \<Longrightarrow>
   search_loop rx lib kw cats acc =
     Inr (acc @ map (found_match rx kw) (filter (keyword_matches kw) (library_entries lib cats)))"
proof (induction cats arbitrary: acc)
  case Nil
  then show ?case by (simp add: library_entries_def)
next
  case (Cons cat cats)
  show ?case
  proof (cases "library_get lib cat")
    case None
    with Cons show ?thesis by (simp add: library_entries_def category_entries_def)
  next
    case (Some ps)
    from Cons.prems Some
    have h1: "list_all (engine_accepts rx kw)
                (filter (keyword_matches kw) (map (\<lambda>(n, b). (cat, n, b)) ps))"
      and h2: "list_all (engine_accepts rx kw)
                (filter (keyword_matches kw) (library_entries lib cats))"
      by (simp_all add: library_entries_def category_entries_def)
    from search_entries_accepts [OF h1] Cons.IH [OF h2] Some show ?thesis
      by (simp add: library_entries_def category_entries_def Object_entries_def)
  qed
qed

lemma search_prompts_results:
  assumes "search_prompts rx lib kw cats = SearchResults k items tot"
  shows "k = kw"
    and "items = map to_result (sort_by_relevance (map (found_match rx kw)
           (filter (keyword_matches kw) (library_entries lib (searchCategories lib cats)))))"
    and "tot = length items"
proof -
  from assms obtain ms where
    l: "search_loop rx lib kw (searchCategories lib cats) [] = Inr ms" and
    r: "k = kw" "items = map to_result (sort_by_relevance ms)"
       "tot = length (sort_by_relevance ms)"
    by (auto simp: search_prompts_def Let_def split: sum.splits)
  from search_loop_Inr [OF l] r show "k = kw"
    and "items = map to_result (sort_by_relevance (map (found_match rx kw)
           (filter (keyword_matches kw) (library_entries lib (searchCategories lib cats)))))"
    and "tot = length items"
    by simp_all
qed

lemma sorted_wrt_results:
  "sorted_wrt (\<lambda>a b. result_relevance b \<le> result_relevance a) (map to_result (sort_by_relevance ms))"
proof -
  have "sorted (map (\<lambda>m. - int (relevance m)) (sort_by_relevance ms))"
    unfolding sort_by_relevance_def by (rule sorted_sort_key)
  then have "sorted_wrt (\<lambda>a b. relevance b \<le> relevance a) (sort_by_relevance ms)"
    by (simp add: sorted_map)
  then show ?thesis
    by (simp add: sorted_wrt_map to_result_def)
qed

lemma stable_results:
  "filter (\<lambda>r. result_relevance r = s) (map to_result (sort_by_relevance ms)) =
   filter (\<lambda>r. result_relevance r = s) (map to_result ms)"
proof -
  have eq: "(\<lambda>m. result_relevance (to_result m) = s) = (\<lambda>m. - int (relevance m) = - int s)"
    by (auto simp: to_result_def)
  have "filter (\<lambda>m. - int (relevance m) = - int s) (sort_by_relevance ms) =
        filter (\<lambda>m. - int (relevance m) = - int s) ms"
    unfolding sort_by_relevance_def by (rule sort_key_stable)
  then show ?thesis
    by (simp add: filter_map o_def eq)
qed

lemma result_id_found:
  "map result_id (map to_result (map (found_match rx kw) es)) = map entry_id es"
  by (induction es) (auto simp: result_id_def to_result_def)

lemma search_entries_throws:
  assumes "keyword_matches kw (cat, n, b)" and "rx (toLowerCase kw) (toLowerCase b) = Inl msg"
  shows "search_entries rx kw cat ((n, b) # rest) acc = Inl msg"
  using assms by (simp add: Let_def)

lemma search_loop_throws:
  assumes "library_get lib cat = Some ps" and "search_entries rx kw cat ps acc = Inl msg"
  shows "search_loop rx lib kw (cat # cats) acc = Inl msg"
  using assms by (simp add: Object_entries_def)

lemma search_prompts_accepts:
  assumes "list_all (engine_accepts rx kw)
             (filter (keyword_matches kw) (library_entries lib (searchCategories lib cats)))"
  shows "search_prompts rx lib kw cats =
           SearchResults kw
             (map to_result (sort_by_relevance (map (found_match rx kw)
                (filter (keyword_matches kw) (library_entries lib (searchCategories lib cats))))))
             (length (filter (keyword_matches kw)
                (library_entries lib (searchCategories lib cats))))"
  using search_loop_accepts [OF assms, of "[]"]
  by (simp add: search_prompts_def Let_def sort_by_relevance_def)

text \<open>
  For a keyword without syntax characters the engine counts the occurrences of the keyword's
  text, and the relevance is as the specification describes it.
\<close>

lemma search_prompts_literal_keyword:
  assumes "ecmascript_regexp rx" and "literal_pattern kw"
  shows "search_prompts rx lib kw cats =
     SearchResults kw
       (map to_result (sort_by_relevance
          (map (\<lambda>(c, n, b). \<lparr>category = c, name = n, content = b,
                  relevance = (if includes_str (toLowerCase n) (toLowerCase kw) then 10 else 0) +
                              count_matches (toLowerCase kw) (toLowerCase b)\<rparr>)
               (filter (keyword_matches kw) (library_entries lib (searchCategories lib cats))))))
       (length (filter (keyword_matches kw) (library_entries lib (searchCategories lib cats))))"
proof -
  from assms have rx: "rx (toLowerCase kw) s = Inr (count_matches (toLowerCase kw) s)" for s
    by (simp add: ecmascript_regexp_def literal_pattern_toLowerCase)
  have fm: "found_match rx kw =
     (\<lambda>(c, n, b). \<lparr>category = c, name = n, content = b,
        relevance = (if includes_str (toLowerCase n) (toLowerCase kw) then 10 else 0) +
                    count_matches (toLowerCase kw) (toLowerCase b)\<rparr>)"
    by (auto simp: fun_eq_iff rx)
  have "list_all (engine_accepts rx kw)
          (filter (keyword_matches kw) (library_entries lib (searchCategories lib cats)))"
    by (auto simp: list_all_iff rx)
  from search_prompts_accepts [OF this] show ?thesis
    by (simp only: fm)
qed

text \<open>
  Claim C2: for every non-empty keyword the relevance of a match is 10 if the lower-cased
  keyword occurs in the lower-cased name, plus the number of non-overlapping occurrences of
  the lower-cased keyword in the lower-cased body. The handler decides whether a prompt
  matches with \<open>includes\<close>, which takes the keyword as text, but counts with
  \<open>new RegExp(lowerKeyword, 'g')\<close>, which takes it as a pattern. For the keyword \<open>.\<close> on
  the loaded library, restricted to the category \<open>common\<close>, the body of \<open>code-quality\<close>
  holds the keyword twice and the name does not hold it, so the claimed relevance is 2; the
  handler returns 1811, the number of code units of the body other than line feeds. For the
  keyword \<open>(\<close> the constructor throws and the handler answers with its error text.
  (For keywords without syntax characters the relevance is as claimed:
  \<open>search_prompts_literal_keyword\<close>.)
\<close>

theorem search_prompts_regexp_keyword:
  assumes "ecmascript_regexp rx"
  shows "search_prompts rx (promptLibrary (init LoadSucceeds)) ''.'' (Some [Common]) =
           SearchResults ''.''
             [to_result \<lparr>category = ''common'', name = ''code-quality'',
                         content = codeQualityPrompt, relevance = 1811\<rparr>] 1 \<and>
         \<not> includes_str (toLowerCase ''code-quality'') (toLowerCase ''.'') \<and>
         count_matches (toLowerCase ''.'') (toLowerCase codeQualityPrompt) = 2 \<and>
         (\<exists>msg. search_prompts rx (promptLibrary (init LoadSucceeds)) ''('' None =
                  SearchError msg)"
proof -
  let ?lib = "promptLibrary (init LoadSucceeds)"
  have dot: "toLowerCase ''.'' = ''.''"
    by code_simp
  have par: "toLowerCase ''('' = ''(''"
    by code_simp
  have nm: "\<not> includes_str (toLowerCase ''code-quality'') ''.''"
    by code_simp
  have inc: "includes_str (toLowerCase codeQualityPrompt) ''.''"
    by (rule includes_toLowerCase_fixed) (simp_all add: codeQualityPrompt_dots)
  from assms
  have "rx ''.'' (toLowerCase codeQualityPrompt) =
          Inr (length (filter (\<lambda>c. \<not> line_terminator c) (toLowerCase codeQualityPrompt)))"
    by (simp add: ecmascript_regexp_def)
  then have rxv: "rx ''.'' (toLowerCase codeQualityPrompt) = Inr 1811"
    unfolding filter_toLowerCase_terminator codeQualityPrompt_code_units .
  have d6: "\<not> digit6 (CHR ''.'')"
    by simp
  have cnt: "count_matches ''.'' (toLowerCase codeQualityPrompt) = 2"
    by (simp only: count_matches_single filter_toLowerCase_fixed [OF d6] length_map
          codeQualityPrompt_dots)
  have es: "library_entries ?lib (searchCategories ?lib (Some [Common])) =
              [(''common'', ''code-quality'', codeQualityPrompt)]"
    by (simp add: searchCategories_def library_entries_def category_entries_def
          library_get_def init_loaded)
  have km: "keyword_matches ''.'' (''common'', ''code-quality'', codeQualityPrompt)"
    by (simp add: dot inc)
  have fm: "found_match rx ''.'' (''common'', ''code-quality'', codeQualityPrompt) =
              \<lparr>category = ''common'', name = ''code-quality'',
               content = codeQualityPrompt, relevance = 1811\<rparr>"
    by (simp add: dot nm rxv)
  have ac: "engine_accepts rx ''.'' (''common'', ''code-quality'', codeQualityPrompt)"
    by (simp add: dot rxv)
  have "list_all (engine_accepts rx ''.'')
          (filter (keyword_matches ''.'')
             (library_entries ?lib (searchCategories ?lib (Some [Common]))))"
    unfolding es using km ac by simp
  from search_prompts_accepts [OF this]
  have s1: "search_prompts rx ?lib ''.'' (Some [Common]) =
           SearchResults ''.''
             [to_result \<lparr>category = ''common'', name = ''code-quality'',
                         content = codeQualityPrompt, relevance = 1811\<rparr>] 1"
    unfolding es using km fm by (simp add: sort_by_relevance_def)
  have incp: "includes_str (toLowerCase componentCreationPrompt) ''(''"
    by (rule includes_toLowerCase_fixed [OF _ componentCreationPrompt_parenthesis]) simp
  then have kmp: "keyword_matches ''('' (''react'', ''component-creation'', componentCreationPrompt)"
    by (simp add: par)
  from assms obtain msg where "rx ''('' (toLowerCase componentCreationPrompt) = Inl msg"
    unfolding ecmascript_regexp_def by blast
  then have rxp: "rx (toLowerCase ''('') (toLowerCase componentCreationPrompt) = Inl msg"
    by (simp add: par)
  have lg: "library_get ?lib ''react'' =
              Some [(''component-creation'', componentCreationPrompt),
                    (''state-management'', stateManagementPrompt)]"
    by (simp add: library_get_def init_loaded)
  have sc: "searchCategories ?lib None = [''react'', ''fe'', ''common'']"
    by (simp add: searchCategories_def Object_keys_def init_loaded)
  have "search_entries rx ''('' ''react''
          [(''component-creation'', componentCreationPrompt),
           (''state-management'', stateManagementPrompt)] [] = Inl msg"
    using kmp rxp by (rule search_entries_throws)
  from search_loop_throws [OF lg this]
  have "search_loop rx ?lib ''('' (searchCategories ?lib None) [] = Inl msg"
    unfolding sc .
  then have "search_prompts rx ?lib ''('' None = SearchError msg"
    by (simp add: search_prompts_def)
  then have s2: "\<exists>msg. search_prompts rx ?lib ''('' None = SearchError msg" ..
  from s1 nm cnt s2 show ?thesis unfolding dot by blast
qed

theorem search_prompts_regexp_keyword_witness:
  "ecmascript_regexp fragment_engine \<and>
   search_prompts fragment_engine (promptLibrary (init LoadSucceeds)) ''.'' (Some [Common]) =
     SearchResults ''.''
       [to_result \<lparr>category = ''common'', name = ''code-quality'',
                   content = codeQualityPrompt, relevance = 1811\<rparr>] 1 \<and>
   count_matches (toLowerCase ''.'') (toLowerCase codeQualityPrompt) = 2"
  using search_prompts_regexp_keyword [OF fragment_engine_conforms] fragment_engine_conforms
  by blast

text \<open>
  Claim C6: the snippet of every result is the first 200 code units of the prompt's body
  followed by \<open>...\<close> when the body is longer than 200, and the whole body, with nothing
  added, when its length is 200 or less.
\<close>

theorem search_prompts_snippet:
  assumes "search_prompts rx lib kw cats = SearchResults k items tot"
  shows "\<forall>r \<in> set items.
           \<exists>(c, n, b) \<in> set (library_entries lib (searchCategories lib cats)).
             keyword_matches kw (c, n, b) \<and> result_category r = c \<and> result_name r = n \<and>
             snippet r = (if 200 < length b then take 200 b @ ''...'' else b)"
proof
  fix r assume "r \<in> set items"
  with search_prompts_results(2) [OF assms] obtain e where
    e: "e \<in> set (library_entries lib (searchCategories lib cats))" "keyword_matches kw e"
    and r: "r = to_result (found_match rx kw e)"
    by (auto simp: sort_by_relevance_def)
  obtain c n b where "e = (c, n, b)" by (cases e)
  with e r show "\<exists>(c, n, b) \<in> set (library_entries lib (searchCategories lib cats)).
             keyword_matches kw (c, n, b) \<and> result_category r = c \<and> result_name r = n \<and>
             snippet r = (if 200 < length b then take 200 b @ ''...'' else b)"
    by (auto simp: to_result_def substring0_def)
qed

theorem search_prompts_snippet_witness:
  "search_prompts fragment_engine
       [(''react'', [(''long'', replicate 250 (CHR ''a'')), (''exact'', replicate 200 (CHR ''a''))])]
       ''a'' None =
     SearchResults ''a''
       [\<lparr>result_category = ''react'', result_name = ''long'', result_relevance = 250,
         snippet = replicate 200 (CHR ''a'') @ ''...''\<rparr>,
        \<lparr>result_category = ''react'', result_name = ''exact'', result_relevance = 210,
         snippet = replicate 200 (CHR ''a'')\<rparr>]
       2"
proof -
  have ev: "search_prompts fragment_engine
       [(''react'', [(''long'', replicate 250 (CHR ''a'')), (''exact'', replicate 200 (CHR ''a''))])]
       ''a'' None =
     SearchResults ''a''
       [\<lparr>result_category = ''react'', result_name = ''long'', result_relevance = 250,
         snippet = replicate 200 (CHR ''a'') @ ''...''\<rparr>,
        \<lparr>result_category = ''react'', result_name = ''exact'', result_relevance = 210,
         snippet = replicate 200 (CHR ''a'')\<rparr>]
       2"
    by code_simp
  from search_prompts_snippet [OF ev] ev show ?thesis by blast
qed

text \<open>
  Claim C7: the results of \<open>search_prompts\<close> are in descending order of relevance, and the
  results of one relevance keep the order in which the loops found them: the order of the
  searched categories, and within a category the order of its prompts.
\<close>

theorem search_prompts_sorted_stable:
  assumes "search_prompts rx lib kw cats = SearchResults k items tot"
  shows "sorted_wrt (\<lambda>a b. result_relevance b \<le> result_relevance a) items \<and>
         (\<exists>found.
            map result_id found =
              map entry_id (filter (keyword_matches kw)
                              (library_entries lib (searchCategories lib cats))) \<and>
            (\<forall>s. filter (\<lambda>r. result_relevance r = s) items =
                 filter (\<lambda>r. result_relevance r = s) found))"
proof -
  let ?ms = "map (found_match rx kw)
               (filter (keyword_matches kw) (library_entries lib (searchCategories lib cats)))"
  from search_prompts_results(2) [OF assms]
  have items: "items = map to_result (sort_by_relevance ?ms)" .
  have s: "sorted_wrt (\<lambda>a b. result_relevance b \<le> result_relevance a) items"
    unfolding items by (rule sorted_wrt_results)
  have i: "map result_id (map to_result ?ms) =
             map entry_id (filter (keyword_matches kw)
                             (library_entries lib (searchCategories lib cats)))"
    by (rule result_id_found)
  have f: "\<forall>s. filter (\<lambda>r. result_relevance r = s) items =
               filter (\<lambda>r. result_relevance r = s) (map to_result ?ms)"
    unfolding items by (simp add: stable_results)
  from s i f show ?thesis by blast
qed

theorem search_prompts_sorted_stable_witness:
  "search_prompts fragment_engine
       [(''react'', [(''a'', ''yyx''), (''b'', ''xx'')]), (''fe'', [(''c'', ''x''), (''d'', ''x-x'')])]
       ''x'' None =
     SearchResults ''x''
       [\<lparr>result_category = ''react'', result_name = ''b'', result_relevance = 2, snippet = ''xx''\<rparr>,
        \<lparr>result_category = ''fe'', result_name = ''d'', result_relevance = 2, snippet = ''x-x''\<rparr>,
        \<lparr>result_category = ''react'', result_name = ''a'', result_relevance = 1, snippet = ''yyx''\<rparr>,
        \<lparr>result_category = ''fe'', result_name = ''c'', result_relevance = 1, snippet = ''x''\<rparr>]
       4 \<and>
   sorted_wrt (\<lambda>a b. result_relevance b \<le> result_relevance a)
       [\<lparr>result_category = ''react'', result_name = ''b'', result_relevance = 2, snippet = ''xx''\<rparr>,
        \<lparr>result_category = ''fe'', result_name = ''d'', result_relevance = 2, snippet = ''x-x''\<rparr>,
        \<lparr>result_category = ''react'', result_name = ''a'', result_relevance = 1, snippet = ''yyx''\<rparr>,
        \<lparr>result_category = ''fe'', result_name = ''c'', result_relevance = 1, snippet = ''x''\<rparr>]"
proof -
  have ev: "search_prompts fragment_engine
       [(''react'', [(''a'', ''yyx''), (''b'', ''xx'')]), (''fe'', [(''c'', ''x''), (''d'', ''x-x'')])]
       ''x'' None =
     SearchResults ''x''
       [\<lparr>result_category = ''react'', result_name = ''b'', result_relevance = 2, snippet = ''xx''\<rparr>,
        \<lparr>result_category = ''fe'', result_name = ''d'', result_relevance = 2, snippet = ''x-x''\<rparr>,
        \<lparr>result_category = ''react'', result_name = ''a'', result_relevance = 1, snippet = ''yyx''\<rparr>,
        \<lparr>result_category = ''fe'', result_name = ''c'', result_relevance = 1, snippet = ''x''\<rparr>]
       4"
    by code_simp
  from search_prompts_sorted_stable [OF ev] ev show ?thesis by blast
qed

text \<open>
  Claim C9: for the empty keyword every prompt of the searched categories is a result, with
  relevance 10 plus one more than the length of its body, and \<open>total_found\<close> is the number
  of prompts searched; the answer is never an error. The searched categories are those the
  request lists, or every category of the library when the request lists none; \<open>es\<close> below
  are their prompts. The results are as many as \<open>es\<close>, each triple of category, name and
  relevance occurs among the results as often as among \<open>es\<close>, and the results are \<open>es\<close> in
  descending order of relevance.
\<close>

theorem search_prompts_empty_keyword:
  assumes "ecmascript_regexp rx"
  shows "(let es = library_entries lib
                     (case cats of None \<Rightarrow> map fst lib | Some cs \<Rightarrow> map category_key cs)
          in \<exists>items.
               search_prompts rx lib [] cats = SearchResults [] items (length es) \<and>
               length items = length es \<and>
               (\<forall>x. length (filter (\<lambda>r. (result_category r, result_name r, result_relevance r) = x)
                                 items) =
                    length (filter (\<lambda>(c, n, b). (c, n, 10 + (length b + 1)) = x) es)) \<and>
               items =
                 map to_result (sort_by_relevance
                   (map (\<lambda>(c, n, b). \<lparr>category = c, name = n, content = b,
                                      relevance = 10 + (length b + 1)\<rparr>) es)))"
proof -
  define es where
    "es = library_entries lib
            (case cats of None \<Rightarrow> map fst lib | Some cs \<Rightarrow> map category_key cs)"
  define mk where
    "mk = (\<lambda>(c, n, b). \<lparr>category = c, name = n, content = b,
                          relevance = 10 + (length b + 1)\<rparr>)"
  define items where "items = map to_result (sort_by_relevance (map mk es))"
  have sc: "library_entries lib (searchCategories lib cats) = es"
    by (cases cats) (simp_all add: es_def searchCategories_def Object_keys_def)
  have lit: "literal_pattern []" by (simp add: literal_pattern_def)
  with assms have rx: "rx [] s = Inr (length s + 1)" for s
    by (simp add: ecmascript_regexp_def)
  have all: "filter (keyword_matches []) es = es"
    by (rule filter_True) (auto simp: toLowerCase_Nil includes_str_Nil)
  have acc: "list_all (engine_accepts rx [])
               (filter (keyword_matches [])
                  (library_entries lib (searchCategories lib cats)))"
    by (auto simp: list_all_iff toLowerCase_Nil rx)
  have fm: "found_match rx [] = mk"
    by (auto simp: fun_eq_iff mk_def toLowerCase_Nil rx includes_str_Nil length_toLowerCase)
  from search_prompts_accepts [OF acc]
  have res: "search_prompts rx lib [] cats = SearchResults [] items (length es)"
    by (simp add: sc all fm items_def)
  have len: "length items = length es"
    by (simp add: items_def sort_by_relevance_def)
  have cnt: "length (filter (\<lambda>r. (result_category r, result_name r, result_relevance r) = x)
                       items) =
             length (filter (\<lambda>(c, n, b). (c, n, 10 + (length b + 1)) = x) es)" for x
  proof -
    obtain c n k where x: "x = (c, n, k)" by (cases x)
    let ?P = "\<lambda>m. (category m, name m, relevance m) = (c, n, k)"
    let ?f = "\<lambda>m. - int (relevance m)"
    have imp: "?P m \<Longrightarrow> ?f m = - int k" for m
      by simp
    have "filter ?P (sort_key ?f (map mk es)) =
            filter ?P (filter (\<lambda>m. ?f m = - int k) (sort_key ?f (map mk es)))"
      using imp by (rule filter_filter_implied [symmetric])
    also have "\<dots> = filter ?P (filter (\<lambda>m. ?f m = - int k) (map mk es))"
      by (simp only: sort_key_stable)
    also have "\<dots> = filter ?P (map mk es)"
      using imp by (rule filter_filter_implied)
    finally have st: "filter ?P (sort_key ?f (map mk es)) = filter ?P (map mk es)" .
    have "filter (\<lambda>r. (result_category r, result_name r, result_relevance r) = x) items =
            map to_result (filter ?P (sort_key ?f (map mk es)))"
      by (simp add: items_def sort_by_relevance_def filter_map o_def to_result_def x)
    also have "\<dots> = map to_result (filter ?P (map mk es))"
      by (simp only: st)
    finally have "length (filter (\<lambda>r. (result_category r, result_name r, result_relevance r) = x)
                            items) =
                  length (filter ?P (map mk es))"
      by simp
    also have "\<dots> = length (filter (\<lambda>(c, n, b). (c, n, 10 + (length b + 1)) = x) es)"
      by (simp add: filter_map o_def mk_def x split_def)
    finally show ?thesis .
  qed
  from res len cnt have
    "\<exists>items'.
       search_prompts rx lib [] cats = SearchResults [] items' (length es) \<and>
       length items' = length es \<and>
       (\<forall>x. length (filter (\<lambda>r. (result_category r, result_name r, result_relevance r) = x)
                         items') =
            length (filter (\<lambda>(c, n, b). (c, n, 10 + (length b + 1)) = x) es)) \<and>
       items' = map to_result (sort_by_relevance (map mk es))"
    unfolding items_def by blast
  then show ?thesis
    unfolding Let_def es_def mk_def .
qed

theorem search_prompts_empty_keyword_witness:
  "ecmascript_regexp fragment_engine \<and>
   search_prompts fragment_engine
       [(''react'', [(''a'', ''xyz'')]), (''fe'', [(''b'', ''hello'')])] [] None =
     SearchResults []
       [\<lparr>result_category = ''fe'', result_name = ''b'', result_relevance = 16, snippet = ''hello''\<rparr>,
        \<lparr>result_category = ''react'', result_name = ''a'', result_relevance = 14, snippet = ''xyz''\<rparr>]
       2 \<and>
   search_prompts fragment_engine
       [(''react'', [(''a'', ''xyz'')]), (''fe'', [(''b'', ''hello'')])] [] (Some [Fe]) =
     SearchResults []
       [\<lparr>result_category = ''fe'', result_name = ''b'', result_relevance = 16, snippet = ''hello''\<rparr>]
       1 \<and>
   search_prompts fragment_engine
       [(''react'', [(''a'', ''xyz'')]), (''fe'', [(''b'', ''hello'')])] [] (Some []) =
     SearchResults [] [] 0"
proof -
  let ?lib = "[(''react'', [(''a'', ''xyz'')]), (''fe'', [(''b'', ''hello'')])]"
  let ?mk = "\<lambda>(c, n, b). \<lparr>category = c, name = n, content = b,
                               relevance = 10 + (length b + 1)\<rparr>"
  have e1: "library_entries ?lib (case None of None \<Rightarrow> map fst ?lib
                                  | Some cs \<Rightarrow> map category_key cs) =
              [(''react'', ''a'', ''xyz''), (''fe'', ''b'', ''hello'')]"
    by code_simp
  have e2: "library_entries ?lib (case Some [Fe] of None \<Rightarrow> map fst ?lib
                                  | Some cs \<Rightarrow> map category_key cs) =
              [(''fe'', ''b'', ''hello'')]"
    by code_simp
  have e3: "library_entries ?lib (case Some [] of None \<Rightarrow> map fst ?lib
                                  | Some cs \<Rightarrow> map category_key cs) = []"
    by code_simp
  have r1: "map to_result (sort_by_relevance
              (map ?mk [(''react'', ''a'', ''xyz''), (''fe'', ''b'', ''hello'')])) =
       [\<lparr>result_category = ''fe'', result_name = ''b'', result_relevance = 16, snippet = ''hello''\<rparr>,
        \<lparr>result_category = ''react'', result_name = ''a'', result_relevance = 14, snippet = ''xyz''\<rparr>]"
    by code_simp
  have r2: "map to_result (sort_by_relevance (map ?mk [(''fe'', ''b'', ''hello'')])) =
       [\<lparr>result_category = ''fe'', result_name = ''b'', result_relevance = 16, snippet = ''hello''\<rparr>]"
    by code_simp
  have r3: "map to_result (sort_by_relevance (map ?mk [])) = []"
    by code_simp
  from search_prompts_empty_keyword [OF fragment_engine_conforms, of ?lib None]
  have s1: "search_prompts fragment_engine ?lib [] None =
     SearchResults []
       [\<lparr>result_category = ''fe'', result_name = ''b'', result_relevance = 16, snippet = ''hello''\<rparr>,
        \<lparr>result_category = ''react'', result_name = ''a'', result_relevance = 14, snippet = ''xyz''\<rparr>]
       2"
    unfolding Let_def e1 r1 by auto
  from search_prompts_empty_keyword [OF fragment_engine_conforms, of ?lib "Some [Fe]"]
  have s2: "search_prompts fragment_engine ?lib [] (Some [Fe]) =
     SearchResults []
       [\<lparr>result_category = ''fe'', result_name = ''b'', result_relevance = 16, snippet = ''hello''\<rparr>]
       1"
    unfolding Let_def e2 r2 by auto
  from search_prompts_empty_keyword [OF fragment_engine_conforms, of ?lib "Some []"]
  have s3: "search_prompts fragment_engine ?lib [] (Some []) = SearchResults [] [] 0"
    unfolding Let_def e3 r3 by auto
  from fragment_engine_conforms s1 s2 s3 show ?thesis by blast
qed

section \<open>The server state\<close>

lemma search_loop_empty_library: "search_loop rx [] kw cats acc = Inr acc"
  by (induction cats) (simp_all add: library_get_def)

lemma search_prompts_empty_library: "search_prompts rx [] kw cs = SearchResults kw [] 0"
  by (simp add: search_prompts_def search_loop_empty_library sort_by_relevance_def)

lemma combine_prompts_empty_library: "combine_prompts [] cats sep = NoPromptsFound"
  by (simp add: combine_prompts_eq library_entries_empty_library)

text \<open>
  Each handler, run on a state, gives the response that the function of its name gives on
  the library of that state, and passes the state on as it found it. For the two handlers
  with a loop that is an induction on the loop: the library read in one iteration is the
  one read in the iteration before.
\<close>

lemma get_categories_handler_eq:
  "get_categories_handler st = (get_categories (promptLibrary st), st)"
  by (simp add: get_categories_handler_def read_promptLibrary_def get_categories_def)

lemma get_prompts_by_category_handler_eq:
  "get_prompts_by_category_handler c st = (get_prompts_by_category (promptLibrary st) c, st)"
  by (simp add: get_prompts_by_category_handler_def read_promptLibrary_def
        get_prompts_by_category_def Let_def split: option.split)

lemma get_prompt_handler_eq:
  "get_prompt_handler c n st = (get_prompt (promptLibrary st) c n, st)"
  by (simp add: get_prompt_handler_def read_promptLibrary_def get_prompt_def Let_def
        split: option.split)

lemma combine_loop_handler_eq:
  "combine_loop_handler cats acc st = (combine_loop (promptLibrary st) cats acc, st)"
proof (induction cats arbitrary: acc)
  case Nil
  show ?case by simp
next
  case (Cons cat cats)
  show ?case
    by (cases "library_get (promptLibrary st) cat")
       (simp_all add: read_promptLibrary_def Cons.IH)
qed

lemma combine_prompts_handler_eq:
  "combine_prompts_handler cs sep st = (combine_prompts (promptLibrary st) cs sep, st)"
  by (simp add: combine_prompts_handler_def combine_loop_handler_eq combine_prompts_def
        split: prod.split)

lemma searchCategories_handler_eq:
  "searchCategories_handler cs st = (searchCategories (promptLibrary st) cs, st)"
  by (simp add: searchCategories_handler_def searchCategories_def read_promptLibrary_def
        split: option.split)

lemma search_loop_handler_eq:
  "search_loop_handler rx kw cats acc st = (search_loop rx (promptLibrary st) kw cats acc, st)"
proof (induction cats arbitrary: acc)
  case Nil
  show ?case by simp
next
  case (Cons cat cats)
  show ?case
  proof (cases "library_get (promptLibrary st) cat")
    case None
    then show ?thesis by (simp add: read_promptLibrary_def Cons.IH)
  next
    case (Some ps)
    then show ?thesis
      by (cases "search_entries rx kw cat (Object_entries ps) acc")
         (simp_all add: read_promptLibrary_def Cons.IH)
  qed
qed

lemma search_prompts_handler_eq:
  "search_prompts_handler rx kw cs st = (search_prompts rx (promptLibrary st) kw cs, st)"
  by (cases "search_loop rx (promptLibrary st) kw (searchCategories (promptLibrary st) cs) []")
     (simp_all add: search_prompts_handler_def searchCategories_handler_eq
        search_loop_handler_eq search_prompts_def Let_def)

lemma call_tool_eq:
  "call_tool rx st req =
     (case req of
        GetCategories \<Rightarrow> get_categories (promptLibrary st)
      | GetPromptsByCategory c \<Rightarrow> get_prompts_by_category (promptLibrary st) c
      | GetPrompt c n \<Rightarrow> get_prompt (promptLibrary st) c n
      | CombinePrompts cs sep \<Rightarrow> combine_prompts (promptLibrary st) cs (separator_argument sep)
      | SearchPrompts kw cs \<Rightarrow> search_prompts rx (promptLibrary st) kw cs,
      st)"
  by (cases req)
     (simp_all add: get_categories_handler_eq get_prompts_by_category_handler_eq
        get_prompt_handler_eq combine_prompts_handler_eq search_prompts_handler_eq)

lemma call_tool_state: "snd (call_tool rx st req) = st"
  by (simp add: call_tool_eq)

lemma call_tools_state: "call_tools rx st reqs = st"
  by (induction reqs) (simp_all add: call_tool_state)

text \<open>The state does record a write: \<open>loadPrompts\<close> changes it.\<close>

lemma loadPrompts_writes: "loadPrompts LoadSucceeds initial_state \<noteq> initial_state"
  by (simp add: initial_state_def)

text \<open>
  Claim C3, as stated: when initialisation fails the library is empty and every later query
  reports a category as not found. That holds of \<open>get_prompts_by_category\<close> and \<open>get_prompt\<close>
  only: on the empty library \<open>get_categories\<close> returns its payload with no categories,
  \<open>combine_prompts\<close> its own result for no prompts, and \<open>search_prompts\<close> a result list that
  is empty.
\<close>

theorem failed_initialisation_counterexample:
  "\<not> is_category_not_found
       (fst (call_tool fragment_engine (init (LoadThrows ''load failed'')) GetCategories)) \<and>
   \<not> is_category_not_found
       (fst (call_tool fragment_engine (init (LoadThrows ''load failed''))
              (CombinePrompts [React] None))) \<and>
   \<not> is_category_not_found
       (fst (call_tool fragment_engine (init (LoadThrows ''load failed''))
              (SearchPrompts ''react'' None)))"
  by (simp add: call_tool_eq init_failed get_categories_def combine_prompts_empty_library
        search_prompts_empty_library)

text \<open>
  Claim C3, amended: when \<open>loadPrompts\<close> throws, the library is the empty object, and every
  tool call then returns a response, none of them an error raised by the call:
  \<open>get_prompts_by_category\<close> and \<open>get_prompt\<close> report the category as not found,
  \<open>get_categories\<close> returns an empty list of categories, \<open>combine_prompts\<close> reports that no
  prompts were found, and \<open>search_prompts\<close> returns an empty result list with
  \<open>total_found\<close> 0.
\<close>

theorem failed_initialisation_queries:
  "promptLibrary (init (LoadThrows e)) = [] \<and>
   fst (call_tool rx (init (LoadThrows e)) req) =
     (case req of
        GetCategories \<Rightarrow>
          Categories \<lparr>categories = [],
                      description = ''Available prompt categories in the library''\<rparr>
      | GetPromptsByCategory c \<Rightarrow> CategoryNotFound (category_key c)
      | GetPrompt c n \<Rightarrow> CategoryNotFound (category_key c)
      | CombinePrompts cs sep \<Rightarrow> NoPromptsFound
      | SearchPrompts kw cs \<Rightarrow> SearchResults kw [] 0)"
  by (cases req)
     (simp_all add: call_tool_eq init_failed get_categories_def Object_keys_def
        get_prompts_by_category_def get_prompt_def library_get_def
        combine_prompts_empty_library search_prompts_empty_library)

text \<open>
  Claim C10: each of the five operations leaves the library unchanged, so two invocations
  with the same arguments return the same result. Here a call runs its handler on the server
  state, and the state it returns is what the handler's statements left (\<open>call_tool\<close>,
  \<open>call_tools\<close>). The state a call leaves is the state it was made in; so is the state any
  sequence of calls leaves; and a call made after any sequence of calls returns the response
  of the same call made before it.
\<close>

theorem tools_leave_state_unchanged:
  "snd (call_tool rx st req) = st \<and>
   call_tools rx st reqs = st \<and>
   fst (call_tool rx (snd (call_tool rx st req)) req) = fst (call_tool rx st req) \<and>
   fst (call_tool rx (call_tools rx st reqs) req) = fst (call_tool rx st req)"
  by (simp add: call_tool_state call_tools_state)

end
